theory Spec2Isabelle
  imports Complex_Main
begin

section \<open>Python values used by tessa\<close>

text \<open>
  Exceptions are values. Only the exception classes that the modelled code raises,
  catches or lets through are listed; \<open>ConnectionError\<close> stands for any exception of a
  provider that is neither a \<open>RuntimeError\<close> nor a \<open>ValueError\<close>.
\<close>

datatype py_error =
  KeyError | IndexError | AttributeError | ValueError | RuntimeError
  | InvalidIndexError | ConnectionError | TypeError

text \<open>
  \<open>str.lower\<close> and \<open>str.upper\<close> on the ASCII letters. Strings are lists of bytes here, so
  a letter outside ASCII is left as it is.
\<close>

definition lower_char :: "char \<Rightarrow> char" where
  "lower_char c =
     (case map_of (zip ''ABCDEFGHIJKLMNOPQRSTUVWXYZ'' ''abcdefghijklmnopqrstuvwxyz'') c of
        Some l \<Rightarrow> l | None \<Rightarrow> c)"

definition upper_char :: "char \<Rightarrow> char" where
  "upper_char c =
     (case map_of (zip ''abcdefghijklmnopqrstuvwxyz'' ''ABCDEFGHIJKLMNOPQRSTUVWXYZ'') c of
        Some u \<Rightarrow> u | None \<Rightarrow> c)"

definition str_lower :: "string \<Rightarrow> string" where
  "str_lower s = map lower_char s"

definition str_upper :: "string \<Rightarrow> string" where
  "str_upper s = map upper_char s"

definition is_ascii_lowercase :: "char \<Rightarrow> bool" where
  "is_ascii_lowercase c = (c \<in> set ''abcdefghijklmnopqrstuvwxyz'')"

text \<open>
  A Python \<open>set\<close> is a list without repetitions. Python leaves the iteration order of a
  set open; the model fixes the order of first occurrence, and no property below depends
  on it. \<open>py_union\<close>, \<open>py_inter\<close> and \<open>py_diff\<close> are the operators \<open>|\<close>, \<open>&\<close> and \<open>-\<close>.
\<close>

definition py_set :: "'a list \<Rightarrow> 'a list" where
  "py_set xs = remdups xs"

definition py_union :: "'a list \<Rightarrow> 'a list \<Rightarrow> 'a list" where
  "py_union xs ys = remdups (xs @ ys)"

definition py_inter :: "'a list \<Rightarrow> 'a list \<Rightarrow> 'a list" where
  "py_inter xs ys = [x \<leftarrow> xs. x \<in> set ys]"

definition py_diff :: "'a list \<Rightarrow> 'a list \<Rightarrow> 'a list" where
  "py_diff xs ys = [x \<leftarrow> xs. x \<notin> set ys]"

text \<open>An argument of type \<open>Union[list, str]\<close>.\<close>

datatype str_or_list = Str string | Lst "string list"

text \<open>\<open>[x] if isinstance(x, str) else x\<close>, for an optional argument.\<close>

definition as_list :: "str_or_list option \<Rightarrow> string list option" where
  "as_list a = (case a of None \<Rightarrow> None | Some (Str s) \<Rightarrow> Some [s] | Some (Lst xs) \<Rightarrow> Some xs)"


section \<open>investing\_search.py\<close>

subsection \<open>Data\<close>

text \<open>
  A search result dataframe of investpy: the column names and the rows of cells.
  \<open>row.to_dict()\<close> pairs the column names with the cells of one row; \<open>d[k]\<close> raises
  \<open>KeyError\<close> for a missing column and \<open>d.get(k, None)\<close> gives \<open>None\<close>.
\<close>

record dataframe =
  columns :: "string list"
  rows :: "string list list"

definition to_dict :: "dataframe \<Rightarrow> string list \<Rightarrow> (string \<times> string) list" where
  "to_dict df row = zip (columns df) row"

definition getitem :: "(string \<times> string) list \<Rightarrow> string \<Rightarrow> py_error + string" where
  "getitem d k = (case map_of d k of None \<Rightarrow> Inl KeyError | Some v \<Rightarrow> Inr v)"

definition dict_get :: "(string \<times> string) list \<Rightarrow> string \<Rightarrow> string option" where
  "dict_get d k = map_of d k"

text \<open>
  The \<open>Symbol\<close> class is defined in \<open>tessa/symbol\<close>. Here a constructed \<open>Symbol\<close> is the
  record of the keyword arguments of its constructor call, as the normalizers build
  them: \<open>country\<close> and \<open>query\<close> are \<open>None\<close> when the call does not pass them, and an alias
  is an optional string because \<open>d.get\<close> can put \<open>None\<close> into the list. The field
  \<open>type'\<close> is the argument \<open>type_\<close>.
\<close>

datatype query_payload = QueryStr string | QueryDict "(string \<times> string) list"

record symbol =
  name :: string
  type' :: string
  country :: "string option"
  query :: "query_payload option"
  aliases :: "string option list"

text \<open>
  The module \<open>investing_types\<close> is a parameter: the list of plural product names
  (\<open>get_plurals()\<close>), \<open>ensure_singular\<close> and \<open>is_valid\<close>.
\<close>

record investing_types =
  get_plurals :: "string list"
  ensure_singular :: "string \<Rightarrow> string"
  is_valid :: "string \<Rightarrow> bool"

text \<open>
  An investpy \<open>SearchObj\<close>. Search objects are referred to by address: the class defines
  neither \<open>__eq__\<close> nor \<open>__hash__\<close>, so a Python set of search objects compares them by
  identity.
\<close>

record searchobj =
  obj_id :: string
  obj_name :: string
  obj_symbol :: string
  obj_country :: string
  obj_tag :: string
  obj_pair_type :: string
  obj_exchange :: string

datatype quotes_result = Raises py_error | One nat | Many "nat list"

text \<open>
  The provider investpy is a parameter: \<open>search_by product by value\<close> is the call
  \<open>getattr(investpy, "search_" + product)(by=by, value=value)\<close>,
  \<open>search_quotes text products countries\<close> is \<open>investpy.search_quotes\<close>, and \<open>objects\<close>
  gives the search object at an address.
\<close>

record investpy =
  search_by :: "string \<Rightarrow> string \<Rightarrow> string \<Rightarrow> py_error + dataframe"
  search_quotes :: "string \<Rightarrow> string list option \<Rightarrow> string list option \<Rightarrow> quotes_result"
  objects :: "nat \<Rightarrow> searchobj"

subsection \<open>\_dataframe\_to\_symbols\<close>

text \<open>
  The alias set of lines 68 to 73. In Python \<open>-\<close> binds tighter than \<open>|\<close>, so the
  expression is \<open>{name, full_name} | (({isin} - {args["name"]}) - {None, ""})\<close>.
\<close>

definition dataframe_aliases :: "(string \<times> string) list \<Rightarrow> string \<Rightarrow> string option list" where
  "dataframe_aliases d chosen =
     py_union (py_set [dict_get d ''name'', dict_get d ''full_name''])
       (py_diff (py_diff (py_set [dict_get d ''isin'']) (py_set [Some chosen]))
          (py_set [None, Some '''']))"

text \<open>The body of the loop over the rows: one row, as a dict, to one \<open>Symbol\<close>.\<close>

definition row_to_symbol :: "investing_types \<Rightarrow> (string \<times> string) list \<Rightarrow> string \<Rightarrow> py_error + symbol" where
  "row_to_symbol it d product =
     (let t = ensure_singular it product in
      case (if t \<noteq> ''currency_cross'' then map_sum id Some (getitem d ''country'') else Inr None) of
        Inl e \<Rightarrow> Inl e
      | Inr c \<Rightarrow>
         (case (if t \<in> set [''currency_cross'', ''bond'', ''commodity'']
                then getitem d ''name'' else getitem d ''symbol'') of
            Inl e \<Rightarrow> Inl e
          | Inr n \<Rightarrow>
             (case (if t \<in> set [''etf'', ''fund'', ''certificate'', ''index'']
                    then map_sum id (\<lambda>v. Some (QueryStr v)) (getitem d ''name'') else Inr None) of
                Inl e \<Rightarrow> Inl e
              | Inr q \<Rightarrow>
                  Inr \<lparr>name = n, type' = t, country = c, query = q,
                       aliases = dataframe_aliases d n\<rparr>)))"

fun rows_to_symbols :: "investing_types \<Rightarrow> dataframe \<Rightarrow> string \<Rightarrow> string list list \<Rightarrow> py_error + symbol list" where
  "rows_to_symbols it df product [] = Inr []"
| "rows_to_symbols it df product (row # rest) =
     (case row_to_symbol it (to_dict df row) product of
        Inl e \<Rightarrow> Inl e
      | Inr s \<Rightarrow>
         (case rows_to_symbols it df product rest of
            Inl e \<Rightarrow> Inl e
          | Inr ss \<Rightarrow> Inr (s # ss)))"

definition dataframe_to_symbols :: "investing_types \<Rightarrow> dataframe \<Rightarrow> string \<Rightarrow> py_error + symbol list" where
  "dataframe_to_symbols it df product = rows_to_symbols it df product (rows df)"

subsection \<open>search\_name\_or\_symbol\<close>

definition valid_bys :: "string list" where
  "valid_bys = [''full_name'', ''name'', ''symbol'']"

text \<open>Lines 115 to 119: the products that are searched.\<close>

definition name_or_symbol_products :: "investing_types \<Rightarrow> str_or_list option \<Rightarrow> string list" where
  "name_or_symbol_products it products =
     (case as_list products of
        Some ps \<Rightarrow> py_inter (py_set ps) (py_set (get_plurals it))
      | None \<Rightarrow> get_plurals it)"

text \<open>
  \<open>df[df.country.isin(countries)]\<close>: the attribute \<open>country\<close> exists only when the
  dataframe has that column.
\<close>

definition filter_countries :: "dataframe \<Rightarrow> string list \<Rightarrow> py_error + dataframe" where
  "filter_countries df cs =
     (if ''country'' \<in> set (columns df)
      then Inr (df\<lparr>rows := [r \<leftarrow> rows df.
                  case dict_get (to_dict df r) ''country'' of Some c \<Rightarrow> c \<in> set cs | None \<Rightarrow> False]\<rparr>)
      else Inl AttributeError)"

definition result_key :: "string \<Rightarrow> string \<Rightarrow> string" where
  "result_key product by = ''investing_'' @ product @ ''_by_'' @ by"

text \<open>
  The body of the inner loop for one product and one match field: \<open>Inl\<close> is an exception
  that leaves the function, \<open>Inr None\<close> leaves the result dict as it is (the provider
  raised \<open>RuntimeError\<close> or \<open>ValueError\<close>, or the dataframe has no row) and \<open>Inr (Some syms)\<close>
  stores \<open>syms\<close> under the key of the combination.
\<close>

definition search_combination ::
  "investpy \<Rightarrow> investing_types \<Rightarrow> string \<Rightarrow> string list option \<Rightarrow> string \<Rightarrow> string
     \<Rightarrow> py_error + symbol list option" where
  "search_combination ip it q countries product by =
     (case search_by ip product by q of
        Inl e \<Rightarrow> if e = RuntimeError \<or> e = ValueError then Inr None else Inl e
      | Inr df \<Rightarrow>
         (case (case countries of None \<Rightarrow> Inr df | Some cs \<Rightarrow> filter_countries df cs) of
            Inl e \<Rightarrow> Inl e
          | Inr df' \<Rightarrow>
             if length (rows df') > 0
             then map_sum id Some (dataframe_to_symbols it df' product)
             else Inr None))"

text \<open>
  The two nested loops, over the pairs of a product and a match field in the order of
  the iteration. The state is the result dict and the log of the provider calls made.
  The function is one evaluation of the body: the decorators \<open>freezeargs\<close> and
  \<open>lru_cache\<close> and the delay of \<open>rate_limit\<close> are left out.
\<close>

type_synonym search_state = "(string \<rightharpoonup> symbol list) \<times> (string \<times> string \<times> string) list"

fun search_loop ::
  "investpy \<Rightarrow> investing_types \<Rightarrow> string \<Rightarrow> string list option \<Rightarrow> (string \<times> string) list
     \<Rightarrow> search_state \<Rightarrow> py_error + search_state" where
  "search_loop ip it q countries [] st = Inr st"
| "search_loop ip it q countries ((product, by) # rest) (res, calls) =
     (case search_combination ip it q countries product by of
        Inl e \<Rightarrow> Inl e
      | Inr r \<Rightarrow>
          search_loop ip it q countries rest
            (case r of None \<Rightarrow> res | Some syms \<Rightarrow> res(result_key product by \<mapsto> syms),
             calls @ [(product, by, q)]))"

definition search_name_or_symbol ::
  "investpy \<Rightarrow> investing_types \<Rightarrow> string \<Rightarrow> str_or_list option \<Rightarrow> str_or_list option
     \<Rightarrow> py_error + search_state" where
  "search_name_or_symbol ip it query0 countries products =
     search_loop ip it (str_lower query0) (as_list countries)
       (List.product (name_or_symbol_products it products) valid_bys)
       (Map.empty, [])"

subsection \<open>\_searchobj\_to\_symbols\<close>

text \<open>
  \<open>str.replace("null", "None")\<close> rewrites every occurrence of \<open>null\<close>, from the left and
  without overlap.
\<close>

fun replace_null :: "string \<Rightarrow> string" where
  "replace_null [] = []"
| "replace_null (ch # rest) =
     (if take 4 (ch # rest) = ''null'' then ''None'' @ replace_null (drop 3 rest)
      else ch # replace_null rest)"

text \<open>
  \<open>ast.literal_eval(str(obj).replace("null", "None"))\<close>: \<open>str(obj)\<close> is the text of the
  dict of the attributes of the search object, and \<open>literal_eval\<close> reads the dict back
  from the text after the replacement, which also rewrites a \<open>null\<close> inside an attribute
  value. The attributes are strings here; no key contains \<open>null\<close>.
\<close>

definition searchobj_dict :: "searchobj \<Rightarrow> (string \<times> string) list" where
  "searchobj_dict obj =
     map (\<lambda>(key, val). (key, replace_null val))
       [(''id_'', obj_id obj), (''name'', obj_name obj), (''symbol'', obj_symbol obj),
        (''country'', obj_country obj), (''tag'', obj_tag obj),
        (''pair_type'', obj_pair_type obj), (''exchange'', obj_exchange obj)]"

definition searchobj_to_symbol :: "investing_types \<Rightarrow> searchobj \<Rightarrow> symbol" where
  "searchobj_to_symbol it obj =
     \<lparr>name = obj_symbol obj,
      type' = (if is_valid it (obj_pair_type obj)
               then ensure_singular it (obj_pair_type obj) else obj_pair_type obj),
      country = Some (obj_country obj),
      query = Some (QueryDict (searchobj_dict obj)),
      aliases = [Some (obj_name obj)]\<rparr>"

definition searchobj_to_symbols :: "investing_types \<Rightarrow> searchobj list \<Rightarrow> symbol list" where
  "searchobj_to_symbols it objs = map (searchobj_to_symbol it) objs"

subsection \<open>search\_for\_searchobjs\<close>

text \<open>Lines 195 to 199: the \<open>products\<close> argument passed on to \<open>investpy.search_quotes\<close>.\<close>

definition searchobjs_products :: "investing_types \<Rightarrow> str_or_list option \<Rightarrow> string list option" where
  "searchobjs_products it products =
     (case as_list products of
        None \<Rightarrow> None
      | Some ps \<Rightarrow>
         (let ps' = py_inter (py_set ps) (py_set (get_plurals it))
          in if ps' = [] then None else Some ps'))"

text \<open>Lines 213 and 214: \<open>search_quotes\<close> may return one object instead of a list.\<close>

definition result_list :: "quotes_result \<Rightarrow> py_error + nat list" where
  "result_list r = (case r of Raises e \<Rightarrow> Inl e | One x \<Rightarrow> Inr [x] | Many xs \<Rightarrow> Inr xs)"

text \<open>The triage of lines 217 to 220, on the addresses of the search objects.\<close>

definition perfect_matches :: "investpy \<Rightarrow> string \<Rightarrow> nat list \<Rightarrow> nat list" where
  "perfect_matches ip q search_res =
     [x \<leftarrow> search_res.
        str_lower (obj_symbol (objects ip x)) = q \<or> str_lower (obj_name (objects ip x)) = q]"

definition other_matches :: "investpy \<Rightarrow> string \<Rightarrow> nat list \<Rightarrow> nat list" where
  "other_matches ip q search_res =
     py_diff (py_set search_res) (py_set (perfect_matches ip q search_res))"

text \<open>The dict comprehension of lines 221 to 228.\<close>

definition triage_dict :: "investpy \<Rightarrow> investing_types \<Rightarrow> string \<Rightarrow> nat list \<Rightarrow> (string \<rightharpoonup> symbol list)" where
  "triage_dict ip it q search_res =
     map_of
       (map (\<lambda>(category_name, category_matches).
               (category_name, searchobj_to_symbols it (map (objects ip) category_matches)))
          [(category_name, category_matches) \<leftarrow>
             zip [''investing_searchobj_perfect'', ''investing_searchobj_other'']
                 [perfect_matches ip q search_res, other_matches ip q search_res].
           category_matches \<noteq> []])"

definition search_for_searchobjs ::
  "investpy \<Rightarrow> investing_types \<Rightarrow> string \<Rightarrow> str_or_list option \<Rightarrow> str_or_list option
     \<Rightarrow> py_error + (string \<rightharpoonup> symbol list)" where
  "search_for_searchobjs ip it query0 countries products =
     (let q = str_lower query0 in
      case result_list (search_quotes ip q (searchobjs_products it products) (as_list countries)) of
        Inl e \<Rightarrow> if e = ValueError \<or> e = RuntimeError then Inr Map.empty else Inl e
      | Inr search_res \<Rightarrow> Inr (triage_dict ip it q search_res))"


section \<open>price/price.py\<close>

subsection \<open>Data\<close>

text \<open>
  The dataframe of a price history: its rows in order, each the index label and the
  cell of the one column \<open>close\<close>. The index is a \<open>DatetimeIndex\<close>: a label is a timestamp,
  the number of nanoseconds since the epoch, as pandas stores it. \<open>float\<close> of a cell is
  the cell itself.
\<close>

type_synonym price_frame = "(int \<times> real) list"

text \<open>
  The argument \<open>when: str\<close> of \<open>price_point_strict\<close> is a date string. pandas parses it
  to the period that it names: \<open>ws_first\<close> and \<open>ws_last\<close> are the first and the last
  nanosecond of the period, \<open>ws_reso\<close> is the resolution of the string in the numbering of
  pandas (0 nanosecond, 1 microsecond, 2 millisecond, 3 second, 4 minute, 5 hour, 6 day,
  7 month, 8 quarter, 9 year). The string \<open>"2020-01-03"\<close> names the day from
  \<open>00:00:00\<close> to \<open>23:59:59.999999999\<close>, with resolution 6. The argument \<open>when\<close> of
  \<open>price_point\<close>, a string or a \<open>Timestamp\<close>, is the timestamp it denotes.
\<close>

record when_str =
  ws_first :: int
  ws_last :: int
  ws_reso :: nat

text \<open>
  \<open>PriceHistory\<close> and \<open>PricePoint\<close> are named tuples of \<open>tessa/price\<close>. A dataframe is a
  mutable object, so a \<open>PriceHistory\<close> holds the address of its dataframe.
\<close>

record PriceHistory =
  ph_df :: nat
  ph_currency :: string

record PricePoint =
  pp_when :: int
  pp_price :: real
  pp_currency :: string

text \<open>
  A call of \<open>price_history\<close> as it is written: the positional arguments, and the keyword
  arguments with their names, in the order of the call. The parameters of the function
  are \<open>query\<close>, \<open>source\<close> and \<open>currency_preference\<close>, bound as \<open>price_args\<close>.
\<close>

type_synonym call_args = "string list \<times> (string \<times> string) list"

type_synonym price_args = "string \<times> string \<times> string"

text \<open>
  The state of the interpreter as far as \<open>price.py\<close> depends on it: the dataframe
  objects by address, the entries of the \<open>lru_cache\<close> around \<open>price_history\<close>, and the log
  of the queries sent to a source. \<open>lru_cache\<close> makes its key from the arguments as the
  call gives them, before any default is filled in.
\<close>

record world =
  heap :: "price_frame list"
  cache :: "(call_args \<times> PriceHistory) list"
  queries :: "price_args list"

definition init_world :: world where
  "init_world = \<lparr>heap = [], cache = [], queries = []\<rparr>"

text \<open>
  The sources are a parameter: \<open>srcs source query currency_preference\<close> is what
  \<open>sources.get_source(source).get_price_history_bruteforcefully(query, currency_preference)\<close>
  returns, a dataframe and the effective currency, or the exception it raises.
\<close>

type_synonym sources = "string \<Rightarrow> string \<Rightarrow> string \<Rightarrow> py_error + (price_frame \<times> string)"

subsection \<open>pandas operations\<close>

text \<open>\<open>df.iloc[i]\<close>: a negative position counts from the end.\<close>

definition iloc :: "price_frame \<Rightarrow> int \<Rightarrow> py_error + (int \<times> real)" where
  "iloc df i =
     (if 0 \<le> i \<and> i < int (length df) then Inr (df ! nat i)
      else if i < 0 \<and> - int (length df) \<le> i then Inr (df ! nat (int (length df) + i))
      else Inl IndexError)"

text \<open>
  The resolution of a \<open>DatetimeIndex\<close> is the finest resolution that one of its labels
  needs, and that of an index of dates, or of an empty index, is the day.
\<close>

definition label_resolution :: "int \<Rightarrow> nat" where
  "label_resolution t =
     (if t mod 1000 \<noteq> 0 then 0
      else if t mod 1000000 \<noteq> 0 then 1
      else if t mod 1000000000 \<noteq> 0 then 2
      else if t mod 60000000000 \<noteq> 0 then 3
      else if t mod 3600000000000 \<noteq> 0 then 4
      else if t mod 86400000000000 \<noteq> 0 then 5
      else 6)"

definition index_resolution :: "int list \<Rightarrow> nat" where
  "index_resolution idx = fold (\<lambda>t r. min (label_resolution t) r) idx 6"

text \<open>
  \<open>df.loc[when]\<close> followed by \<open>.name\<close>, for a date string \<open>when\<close>. A string that is less
  precise than the index selects the rows of its period (partial string indexing): on
  an increasing, non-empty index a period that lies before the first or after the last
  label is a \<open>KeyError\<close>, and otherwise the result is a dataframe, which has no attribute
  \<open>name\<close>. Another string is looked up as the timestamp it parses to: no row with that
  label is a \<open>KeyError\<close>, one row is that row, and with several such rows \<open>loc\<close> gives a
  dataframe again.
\<close>

definition loc :: "price_frame \<Rightarrow> when_str \<Rightarrow> py_error + (int \<times> real)" where
  "loc df when0 =
     (if index_resolution (map fst df) < ws_reso when0
      then (if sorted (map fst df) \<and> df \<noteq> []
               \<and> (ws_last when0 < fst (hd df) \<or> fst (last df) < ws_first when0)
            then Inl KeyError
            else Inl AttributeError)
      else case [r \<leftarrow> df. fst r = ws_first when0] of
             [] \<Rightarrow> Inl KeyError
           | [r] \<Rightarrow> Inr r
           | _ \<Rightarrow> Inl AttributeError)"

text \<open>
  \<open>df.index.get_indexer([when], method="nearest")[0]\<close>: pandas wants a unique and
  monotonic index, gives \<open>-1\<close> for an empty one, and among two labels at the same
  distance takes the larger.
\<close>

definition nearer :: "int \<Rightarrow> int \<Rightarrow> int \<Rightarrow> bool" where
  "nearer when0 a b = (\<bar>a - when0\<bar> < \<bar>b - when0\<bar> \<or> (\<bar>a - when0\<bar> = \<bar>b - when0\<bar> \<and> b < a))"

fun nearest_from :: "int \<Rightarrow> int list \<Rightarrow> nat \<Rightarrow> nat \<Rightarrow> int \<Rightarrow> nat" where
  "nearest_from when0 [] i best label = best"
| "nearest_from when0 (a # rest) i best label =
     (if nearer when0 a label then nearest_from when0 rest (Suc i) i a
      else nearest_from when0 rest (Suc i) best label)"

definition get_indexer_nearest :: "int list \<Rightarrow> int \<Rightarrow> py_error + int" where
  "get_indexer_nearest idx when0 =
     (if \<not> distinct idx then Inl InvalidIndexError
      else if \<not> (sorted idx \<or> sorted (rev idx)) then Inl ValueError
      else case idx of
             [] \<Rightarrow> Inr (- 1)
           | a # rest \<Rightarrow> Inr (int (nearest_from when0 rest 1 0 a)))"

subsection \<open>price\_history\<close>

text \<open>
  The function as written, without the decorator: it asks the source, copies the
  dataframe to a new address and puts the currency in upper case. The rate limiter only
  delays the call.
\<close>

definition price_history_wrapped ::
  "sources \<Rightarrow> world \<Rightarrow> string \<Rightarrow> string \<Rightarrow> string \<Rightarrow> (py_error + PriceHistory) \<times> world" where
  "price_history_wrapped srcs w query0 source currency_preference =
     (let w1 = w\<lparr>queries := queries w @ [(query0, source, currency_preference)]\<rparr> in
      case srcs source query0 currency_preference of
        Inl e \<Rightarrow> (Inl e, w1)
      | Inr (df, effective_currency) \<Rightarrow>
          (Inr \<lparr>ph_df = length (heap w1), ph_currency = str_upper effective_currency\<rparr>,
           w1\<lparr>heap := heap w1 @ [df]\<rparr>))"

text \<open>
  Python binds the arguments of a call to the parameters: positional arguments first,
  then keyword arguments, then the defaults \<open>source="yahoo"\<close> and
  \<open>currency_preference="USD"\<close>. Too many positional arguments, a keyword that is no
  parameter, a parameter given twice and a missing \<open>query\<close> are a \<open>TypeError\<close>.
\<close>

definition arg_value :: "call_args \<Rightarrow> nat \<Rightarrow> string \<Rightarrow> string \<Rightarrow> string" where
  "arg_value ca i param fallback =
     (if i < length (fst ca) then fst ca ! i
      else case map_of (snd ca) param of Some v \<Rightarrow> v | None \<Rightarrow> fallback)"

definition bind_price_args :: "call_args \<Rightarrow> py_error + price_args" where
  "bind_price_args ca =
     (let params = [''query'', ''source'', ''currency_preference''];
          keywords = map fst (snd ca)
      in if length params < length (fst ca) then Inl TypeError
         else if list_ex (\<lambda>k. k \<notin> set params) keywords then Inl TypeError
         else if list_ex (\<lambda>k. k \<in> set (take (length (fst ca)) params)) keywords
         then Inl TypeError
         else if distinct keywords
         then (if fst ca = [] \<and> map_of (snd ca) ''query'' = None then Inl TypeError
               else Inr (arg_value ca 0 ''query'' [],
                         arg_value ca 1 ''source'' ''yahoo'',
                         arg_value ca 2 ''currency_preference'' ''USD''))
         else Inl TypeError)"

text \<open>
  \<open>custom_cache_wrapper\<close>: \<open>lru_cache(maxsize=None)\<close> returns the stored result for the
  arguments of a call it has seen, and otherwise calls the function and stores the
  result of a call that returns. A call that raises stores nothing.
\<close>

definition price_history_call ::
  "sources \<Rightarrow> world \<Rightarrow> call_args \<Rightarrow> (py_error + PriceHistory) \<times> world" where
  "price_history_call srcs w ca =
     (case map_of (cache w) ca of
        Some ph \<Rightarrow> (Inr ph, w)
      | None \<Rightarrow>
         (case bind_price_args ca of
            Inl e \<Rightarrow> (Inl e, w)
          | Inr (query0, source, currency_preference) \<Rightarrow>
             (case price_history_wrapped srcs w query0 source currency_preference of
                (Inl e, w') \<Rightarrow> (Inl e, w')
              | (Inr ph, w') \<Rightarrow> (Inr ph, w'\<lparr>cache := (ca, ph) # cache w'\<rparr>))))"

text \<open>
  \<open>price_history.__wrapped__\<close> called with the same arguments: the function without the
  cache.
\<close>

definition price_history_uncached ::
  "sources \<Rightarrow> world \<Rightarrow> call_args \<Rightarrow> (py_error + PriceHistory) \<times> world" where
  "price_history_uncached srcs w ca =
     (case bind_price_args ca of
        Inl e \<Rightarrow> (Inl e, w)
      | Inr (query0, source, currency_preference) \<Rightarrow>
          price_history_wrapped srcs w query0 source currency_preference)"

text \<open>
  The call \<open>price_history(query, source, currency_preference)\<close>, all three arguments by
  position: this is how \<open>price_point\<close>, \<open>price_point_strict\<close> and \<open>price_latest\<close> call it.
\<close>

definition price_history ::
  "sources \<Rightarrow> world \<Rightarrow> string \<Rightarrow> string \<Rightarrow> string \<Rightarrow> (py_error + PriceHistory) \<times> world" where
  "price_history srcs w query0 source currency_preference =
     price_history_call srcs w ([query0, source, currency_preference], [])"

subsection \<open>price\_point, price\_point\_strict, price\_latest\<close>

definition price_point ::
  "sources \<Rightarrow> world \<Rightarrow> string \<Rightarrow> int \<Rightarrow> string \<Rightarrow> string \<Rightarrow> (py_error + PricePoint) \<times> world" where
  "price_point srcs w query0 when0 source currency_preference =
     (case price_history srcs w query0 source currency_preference of
        (Inl e, w') \<Rightarrow> (Inl e, w')
      | (Inr ph, w') \<Rightarrow>
         (let df = heap w' ! ph_df ph in
          case get_indexer_nearest (map fst df) when0 of
            Inl e \<Rightarrow> (Inl e, w')
          | Inr i \<Rightarrow>
             (case iloc df i of
                Inl e \<Rightarrow> (Inl e, w')
              | Inr price \<Rightarrow>
                 (Inr \<lparr>pp_when = fst price, pp_price = snd price,
                       pp_currency = ph_currency ph\<rparr>, w'))))"

definition price_point_strict ::
  "sources \<Rightarrow> world \<Rightarrow> string \<Rightarrow> when_str \<Rightarrow> string \<Rightarrow> string
     \<Rightarrow> (py_error + PricePoint) \<times> world" where
  "price_point_strict srcs w query0 when0 source currency_preference =
     (case price_history srcs w query0 source currency_preference of
        (Inl e, w') \<Rightarrow> (Inl e, w')
      | (Inr ph, w') \<Rightarrow>
         (let df = heap w' ! ph_df ph in
          case loc df when0 of
            Inl e \<Rightarrow> (Inl e, w')
          | Inr row \<Rightarrow>
             (Inr \<lparr>pp_when = fst row, pp_price = snd row, pp_currency = ph_currency ph\<rparr>, w')))"

definition price_latest ::
  "sources \<Rightarrow> world \<Rightarrow> string \<Rightarrow> string \<Rightarrow> string \<Rightarrow> (py_error + PricePoint) \<times> world" where
  "price_latest srcs w query0 source currency_preference =
     (case price_history srcs w query0 source currency_preference of
        (Inl e, w') \<Rightarrow> (Inl e, w')
      | (Inr ph, w') \<Rightarrow>
         (let df = heap w' ! ph_df ph in
          case iloc df (- 1) of
            Inl e \<Rightarrow> (Inl e, w')
          | Inr row \<Rightarrow>
             (Inr \<lparr>pp_when = fst row, pp_price = snd row, pp_currency = ph_currency ph\<rparr>, w')))"

subsection \<open>Callers\<close>

text \<open>
  What a caller of the module can do between two calls: call one of the four functions
  (\<open>price_history\<close> with three positional arguments, or with the arguments written in
  another way), change a dataframe it got in place (a write to an address that holds no
  dataframe changes nothing), or call \<open>price_history.cache_clear()\<close>.
\<close>

datatype action =
  CallPriceHistory string string string
  | CallPriceHistoryAs "string list" "(string \<times> string) list"
  | CallPricePoint string int string string
  | CallPricePointStrict string when_str string string
  | CallPriceLatest string string string
  | Mutate nat price_frame
  | CacheClear

fun step :: "sources \<Rightarrow> action \<Rightarrow> world \<Rightarrow> world" where
  "step srcs (CallPriceHistory q s c) w = snd (price_history srcs w q s c)"
| "step srcs (CallPriceHistoryAs args kwargs) w = snd (price_history_call srcs w (args, kwargs))"
| "step srcs (CallPricePoint q t s c) w = snd (price_point srcs w q t s c)"
| "step srcs (CallPricePointStrict q t s c) w = snd (price_point_strict srcs w q t s c)"
| "step srcs (CallPriceLatest q s c) w = snd (price_latest srcs w q s c)"
| "step srcs (Mutate a df) w = w\<lparr>heap := (heap w)[a := df]\<rparr>"
| "step srcs CacheClear w = w\<lparr>cache := []\<rparr>"

definition run :: "sources \<Rightarrow> action list \<Rightarrow> world \<Rightarrow> world" where
  "run srcs acts w = fold (step srcs) acts w"

fun is_mutation :: "action \<Rightarrow> bool" where
  "is_mutation (Mutate a df) = True"
| "is_mutation other = False"

text \<open>What a caller sees of a result: the content of the dataframe and the currency.\<close>

definition observe :: "(py_error + PriceHistory) \<times> world \<Rightarrow> py_error + (price_frame \<times> string)" where
  "observe r =
     (case fst r of
        Inl e \<Rightarrow> Inl e
      | Inr ph \<Rightarrow> Inr (heap (snd r) ! ph_df ph, ph_currency ph))"


subsection \<open>Invariants of the cache\<close>

text \<open>
  \<open>cache_currencies\<close>: every entry of the cache is for a call whose arguments bind and
  at which the source returns, and holds the currency of the source in upper case.
  \<open>cache_sound\<close>: moreover the dataframe of the entry still has the content that the
  source returned.
\<close>

definition cache_currencies :: "sources \<Rightarrow> world \<Rightarrow> bool" where
  "cache_currencies srcs w =
     (\<forall>(k, ph) \<in> set (cache w).
        case bind_price_args k of
          Inl e \<Rightarrow> False
        | Inr (q, s, c) \<Rightarrow>
          (case srcs s q c of
             Inl e \<Rightarrow> False
           | Inr (df, cur) \<Rightarrow> ph_currency ph = str_upper cur))"

definition cache_sound :: "sources \<Rightarrow> world \<Rightarrow> bool" where
  "cache_sound srcs w =
     (\<forall>(k, ph) \<in> set (cache w).
        case bind_price_args k of
          Inl e \<Rightarrow> False
        | Inr (q, s, c) \<Rightarrow>
          (case srcs s q c of
             Inl e \<Rightarrow> False
           | Inr (df, cur) \<Rightarrow>
               ph_currency ph = str_upper cur
               \<and> ph_df ph < length (heap w) \<and> heap w ! ph_df ph = df))"


section \<open>Example inputs\<close>

text \<open>Concrete providers, tables and rows at which the properties below are evaluated.\<close>

definition example_types :: investing_types where
  "example_types =
     \<lparr>get_plurals = [''stocks'', ''funds'', ''currency_crosses''],
      ensure_singular =
        (\<lambda>p. if p = ''stocks'' then ''stock'' else if p = ''funds'' then ''fund''
              else if p = ''currency_crosses'' then ''currency_cross'' else p),
      is_valid =
        (\<lambda>p. p \<in> set [''stocks'', ''funds'', ''currency_crosses'',
                        ''stock'', ''fund'', ''currency_cross''])\<rparr>"

definition example_obj :: "nat \<Rightarrow> searchobj" where
  "example_obj a =
     (if a = 0 then
        \<lparr>obj_id = ''6408'', obj_name = ''Apple Inc'', obj_symbol = ''AAPL'',
         obj_country = ''united states'', obj_tag = ''/equities/apple-computer-inc'',
         obj_pair_type = ''stocks'', obj_exchange = ''NASDAQ''\<rparr>
      else if a = 1 then
        \<lparr>obj_id = ''958'', obj_name = ''Apple Hospitality REIT Inc'', obj_symbol = ''APLE'',
         obj_country = ''united states'', obj_tag = ''/equities/apple-hospitality-reit'',
         obj_pair_type = ''stocks'', obj_exchange = ''NYSE''\<rparr>
      else
        \<lparr>obj_id = ''17'', obj_name = ''AAPL'', obj_symbol = ''AAPL'',
         obj_country = ''mexico'', obj_tag = ''/equities/aapl'',
         obj_pair_type = ''currencies'', obj_exchange = ''Mexico''\<rparr>)"

definition example_stocks :: dataframe where
  "example_stocks =
     \<lparr>columns = [''country'', ''name'', ''full_name'', ''isin'', ''currency'', ''symbol''],
      rows = [[''united states'', ''Apple'', ''Apple Inc'', ''US0378331005'', ''USD'', ''AAPL''],
              [''mexico'', ''Apple'', ''Apple Inc'', ''US0378331005'', ''MXN'', ''AAPL'']]\<rparr>"

definition example_funds :: dataframe where
  "example_funds =
     \<lparr>columns = [''country'', ''name'', ''symbol'', ''issuer'', ''isin''],
      rows = [[''united states'', ''Aapl Growth Fund'', ''0P00000AAA'', ''Issuer'', ''US0000000001'']]\<rparr>"

definition example_crosses :: dataframe where
  "example_crosses =
     \<lparr>columns = [''name'', ''full_name'', ''base'', ''second''],
      rows = [[''USD/CHF'', ''US Dollar Swiss Franc'', ''USD'', ''CHF'']]\<rparr>"

definition example_investpy :: investpy where
  "example_investpy =
     \<lparr>search_by =
        (\<lambda>product by value.
           if product = ''stocks'' \<and> by = ''symbol'' \<and> value = ''aapl'' then Inr example_stocks
           else if product = ''funds'' \<and> by = ''name'' then Inr example_funds
           else if product = ''stocks'' then Inr (example_stocks\<lparr>rows := []\<rparr>)
           else Inl RuntimeError),
      search_quotes =
        (\<lambda>text products countries. if text = ''aapl'' then Many [0, 1] else Raises RuntimeError),
      objects = example_obj\<rparr>"


text \<open>
  Timestamps of the examples: midnight of the day \<open>d\<close> days after the epoch (day 18263
  is 2020-01-02), the date string of that day, and the string that names one
  timestamp to the nanosecond.
\<close>

definition days :: "int \<Rightarrow> int" where
  "days d = d * 86400000000000"

definition date_str :: "int \<Rightarrow> when_str" where
  "date_str d = \<lparr>ws_first = days d, ws_last = days (d + 1) - 1, ws_reso = 6\<rparr>"

definition timestamp_str :: "int \<Rightarrow> when_str" where
  "timestamp_str t = \<lparr>ws_first = t, ws_last = t, ws_reso = 0\<rparr>"

definition example_prices :: price_frame where
  "example_prices = [(days 18263, 75.09), (days 18264, 74.36), (days 18267, 74.95)]"

definition example_sources :: sources where
  "example_sources source query0 currency_preference =
     (if source = ''yahoo'' \<and> query0 = ''AAPL'' then Inr (example_prices, ''usd'')
      else if source = ''coingecko'' \<and> query0 = ''bitcoin''
      then Inr ([(days 18263, 7200)], currency_preference)
      else Inl ValueError)"


text \<open>The state after the first call \<open>price_history("AAPL", "yahoo", "USD")\<close>.\<close>

definition example_world :: world where
  "example_world =
     \<lparr>heap = [example_prices],
      cache = [(([''AAPL'', ''yahoo'', ''USD''], []), \<lparr>ph_df = 0, ph_currency = ''USD''\<rparr>)],
      queries = [(''AAPL'', ''yahoo'', ''USD'')]\<rparr>"



definition duplicate_sources :: sources where
  "duplicate_sources source query0 currency_preference =
     Inr ([(days 18263, 75.09), (days 18264, 74.36), (days 18264, 74.40)], ''USD'')"

definition hourly_sources :: sources where
  "hourly_sources source query0 currency_preference =
     Inr ([(days 18263, 7200), (days 18263 + 3600000000000, 7210),
           (days 18264 + 3600000000000, 7190)], ''usd'')"




section \<open>Properties\<close>

lemma py_diff_set: "set (py_diff xs ys) = set xs - set ys"
  by (auto simp: py_diff_def)

subsection \<open>The triage of search objects\<close>

lemma triage_dict_perfect:
  "triage_dict ip it q rs ''investing_searchobj_perfect'' =
     (if perfect_matches ip q rs = [] then None
      else Some (searchobj_to_symbols it (map (objects ip) (perfect_matches ip q rs))))"
  by (simp add: triage_dict_def)

lemma triage_dict_other:
  "triage_dict ip it q rs ''investing_searchobj_other'' =
     (if other_matches ip q rs = [] then None
      else Some (searchobj_to_symbols it (map (objects ip) (other_matches ip q rs))))"
  by (simp add: triage_dict_def)

lemma triage_dict_dom:
  "dom (triage_dict ip it q rs) \<subseteq> {''investing_searchobj_perfect'', ''investing_searchobj_other''}"
  by (auto simp: triage_dict_def dom_def split: if_splits)

text \<open>
  Claim C1. Whenever \<open>investpy.search_quotes\<close> returns (one object or a list),
  \<open>search_for_searchobjs\<close> returns the triage dict of the results: a result is a perfect
  match if and only if its symbol or its name, in lower case, is the query in lower
  case; the perfect and the other matches are disjoint and together are all the
  results; and a category has its key in the dict, with the symbols of its matches,
  exactly when it is not empty.
\<close>

theorem search_for_searchobjs_triage:
  assumes "result_list (search_quotes ip (str_lower query0) (searchobjs_products it products)
             (as_list countries)) = Inr search_res"
  shows "search_for_searchobjs ip it query0 countries products
           = Inr (triage_dict ip it (str_lower query0) search_res)
       \<and> set (perfect_matches ip (str_lower query0) search_res)
           = {x \<in> set search_res.
                str_lower (obj_symbol (objects ip x)) = str_lower query0
                \<or> str_lower (obj_name (objects ip x)) = str_lower query0}
       \<and> set (perfect_matches ip (str_lower query0) search_res)
           \<inter> set (other_matches ip (str_lower query0) search_res) = {}
       \<and> set (perfect_matches ip (str_lower query0) search_res)
           \<union> set (other_matches ip (str_lower query0) search_res) = set search_res
       \<and> triage_dict ip it (str_lower query0) search_res ''investing_searchobj_perfect''
           = (if perfect_matches ip (str_lower query0) search_res = [] then None
              else Some (searchobj_to_symbols it
                     (map (objects ip) (perfect_matches ip (str_lower query0) search_res))))
       \<and> triage_dict ip it (str_lower query0) search_res ''investing_searchobj_other''
           = (if other_matches ip (str_lower query0) search_res = [] then None
              else Some (searchobj_to_symbols it
                     (map (objects ip) (other_matches ip (str_lower query0) search_res))))
       \<and> dom (triage_dict ip it (str_lower query0) search_res)
           \<subseteq> {''investing_searchobj_perfect'', ''investing_searchobj_other''}"
proof -
  let ?q = "str_lower query0"
  have run: "search_for_searchobjs ip it query0 countries products
               = Inr (triage_dict ip it ?q search_res)"
    using assms by (simp add: search_for_searchobjs_def Let_def)
  have perfect: "set (perfect_matches ip ?q search_res)
           = {x \<in> set search_res.
                str_lower (obj_symbol (objects ip x)) = ?q
                \<or> str_lower (obj_name (objects ip x)) = ?q}"
    by (simp add: perfect_matches_def)
  have sub: "set (perfect_matches ip ?q search_res) \<subseteq> set search_res"
    by (auto simp: perfect_matches_def)
  have other: "set (other_matches ip ?q search_res)
                 = set search_res - set (perfect_matches ip ?q search_res)"
    by (simp add: other_matches_def py_diff_set py_set_def)
  from sub other have part:
    "set (perfect_matches ip ?q search_res) \<inter> set (other_matches ip ?q search_res) = {}"
    "set (perfect_matches ip ?q search_res) \<union> set (other_matches ip ?q search_res) = set search_res"
    by auto
  from run perfect part triage_dict_perfect [of ip it ?q search_res]
    triage_dict_other [of ip it ?q search_res] triage_dict_dom [of ip it ?q search_res]
  show ?thesis by simp
qed

lemma str_lower_AAPL: "str_lower ''AAPL'' = ''aapl''"
  by (simp add: str_lower_def lower_char_def)

lemma example_quotes:
  "result_list (search_quotes example_investpy (str_lower ''AAPL'')
     (searchobjs_products example_types None) (as_list None)) = Inr [0, 1]"
  by (simp add: str_lower_AAPL example_investpy_def result_list_def)

lemma example_perfect: "perfect_matches example_investpy (str_lower ''AAPL'') [0, 1] = [0]"
  by (simp add: str_lower_AAPL perfect_matches_def example_investpy_def example_obj_def
      str_lower_def lower_char_def)

lemma example_other: "other_matches example_investpy (str_lower ''AAPL'') [0, 1] = [1]"
  unfolding other_matches_def example_perfect by (simp add: py_diff_def py_set_def)

theorem search_for_searchobjs_triage_witness:
  "result_list (search_quotes example_investpy (str_lower ''AAPL'')
     (searchobjs_products example_types None) (as_list None)) = Inr [0, 1]
   \<and> perfect_matches example_investpy (str_lower ''AAPL'') [0, 1] = [0]
   \<and> other_matches example_investpy (str_lower ''AAPL'') [0, 1] = [1]
   \<and> search_for_searchobjs example_investpy example_types ''AAPL'' None None
        = Inr (triage_dict example_investpy example_types (str_lower ''AAPL'') [0, 1])
   \<and> triage_dict example_investpy example_types (str_lower ''AAPL'') [0, 1]
        ''investing_searchobj_perfect''
        = Some (searchobj_to_symbols example_types [example_obj 0])
   \<and> triage_dict example_investpy example_types (str_lower ''AAPL'') [0, 1]
        ''investing_searchobj_other''
        = Some (searchobj_to_symbols example_types [example_obj 1])"
  using search_for_searchobjs_triage [OF example_quotes] example_quotes example_perfect example_other
  by (simp add: example_investpy_def)

subsection \<open>Products that are not valid\<close>

lemma py_inter_disjoint: "set xs \<inter> set ys = {} \<Longrightarrow> py_inter (py_set xs) (py_set ys) = []"
  by (auto simp: py_inter_def py_set_def filter_empty_conv)

text \<open>
  Claim C8. For a non-empty list of products none of which is valid,
  \<open>search_name_or_symbol\<close> searches the empty set of products: it calls no provider
  endpoint and returns the empty dict. \<open>search_for_searchobjs\<close> turns the empty
  intersection into \<open>None\<close>: it calls \<open>investpy.search_quotes\<close> with \<open>products=None\<close>,
  the search over all products, and returns the triage of what that call returns, as it
  does when no products are given.
\<close>

theorem invalid_products_diverge:
  assumes "ps \<noteq> []" and "set ps \<inter> set (get_plurals it) = {}"
  shows "name_or_symbol_products it (Some (Lst ps)) = []
       \<and> search_name_or_symbol ip it query0 countries (Some (Lst ps)) = Inr (Map.empty, [])
       \<and> searchobjs_products it (Some (Lst ps)) = None
       \<and> search_for_searchobjs ip it query0 countries (Some (Lst ps))
           = (case result_list (search_quotes ip (str_lower query0) None (as_list countries)) of
                Inl e \<Rightarrow> if e = ValueError \<or> e = RuntimeError then Inr Map.empty else Inl e
              | Inr search_res \<Rightarrow> Inr (triage_dict ip it (str_lower query0) search_res))
       \<and> search_for_searchobjs ip it query0 countries (Some (Lst ps))
           = search_for_searchobjs ip it query0 countries None"
proof -
  from assms(2) have inter: "py_inter (py_set ps) (py_set (get_plurals it)) = []"
    by (rule py_inter_disjoint)
  have prods: "name_or_symbol_products it (Some (Lst ps)) = []"
    by (simp add: name_or_symbol_products_def as_list_def inter)
  have sp: "searchobjs_products it (Some (Lst ps)) = None"
    by (simp add: searchobjs_products_def as_list_def inter)
  have sp0: "searchobjs_products it None = None"
    by (simp add: searchobjs_products_def as_list_def)
  have "search_name_or_symbol ip it query0 countries (Some (Lst ps)) = Inr (Map.empty, [])"
    by (simp add: search_name_or_symbol_def prods)
  moreover have "search_for_searchobjs ip it query0 countries (Some (Lst ps))
           = (case result_list (search_quotes ip (str_lower query0) None (as_list countries)) of
                Inl e \<Rightarrow> if e = ValueError \<or> e = RuntimeError then Inr Map.empty else Inl e
              | Inr search_res \<Rightarrow> Inr (triage_dict ip it (str_lower query0) search_res))"
    by (simp add: search_for_searchobjs_def Let_def sp)
  moreover have "search_for_searchobjs ip it query0 countries (Some (Lst ps))
                   = search_for_searchobjs ip it query0 countries None"
    by (simp add: search_for_searchobjs_def sp sp0)
  ultimately show ?thesis using prods sp by (intro conjI)
qed

theorem invalid_products_diverge_witness:
  "[''shares'', ''coins''] \<noteq> []
   \<and> set [''shares'', ''coins''] \<inter> set (get_plurals example_types) = {}
   \<and> search_name_or_symbol example_investpy example_types ''AAPL'' None
        (Some (Lst [''shares'', ''coins''])) = Inr (Map.empty, [])
   \<and> searchobjs_products example_types (Some (Lst [''shares'', ''coins''])) = None
   \<and> search_quotes example_investpy (str_lower ''AAPL'') None (as_list None) = Many [0, 1]
   \<and> search_for_searchobjs example_investpy example_types ''AAPL'' None
        (Some (Lst [''shares'', ''coins'']))
       = Inr (triage_dict example_investpy example_types (str_lower ''AAPL'') [0, 1])
   \<and> search_for_searchobjs example_investpy example_types ''AAPL'' None
        (Some (Lst [''shares'', ''coins'']))
       = search_for_searchobjs example_investpy example_types ''AAPL'' None None"
proof -
  have h1: "[''shares'', ''coins''] \<noteq> []" by simp
  have h2: "set [''shares'', ''coins''] \<inter> set (get_plurals example_types) = {}"
    by (simp add: example_types_def)
  have quotes: "search_quotes example_investpy (str_lower ''AAPL'') None (as_list None) = Many [0, 1]"
    by (simp add: str_lower_AAPL example_investpy_def)
  note inst = invalid_products_diverge [OF h1 h2, of example_investpy "''AAPL''" None]
  from inst [THEN conjunct2, THEN conjunct2, THEN conjunct2, THEN conjunct1]
  have pinned: "search_for_searchobjs example_investpy example_types ''AAPL'' None
        (Some (Lst [''shares'', ''coins'']))
       = Inr (triage_dict example_investpy example_types (str_lower ''AAPL'') [0, 1])"
    unfolding quotes by (simp add: result_list_def)
  note none = inst [THEN conjunct2, THEN conjunct1]
    and passed = inst [THEN conjunct2, THEN conjunct2, THEN conjunct1]
    and same = inst [THEN conjunct2, THEN conjunct2, THEN conjunct2, THEN conjunct2]
  from h1 h2 none passed quotes pinned same show ?thesis by (intro conjI)
qed

subsection \<open>The column mapping\<close>

lemma row_to_symbol_Inr:
  assumes "row_to_symbol it d product = Inr s"
  shows "type' s = ensure_singular it product
       \<and> Some (name s) = dict_get d
           (if ensure_singular it product \<in> {''currency_cross'', ''bond'', ''commodity''}
            then ''name'' else ''symbol'')
       \<and> query s = (if ensure_singular it product \<in> {''etf'', ''fund'', ''certificate'', ''index''}
                    then map_option QueryStr (dict_get d ''name'') else None)
       \<and> (ensure_singular it product \<in> {''etf'', ''fund'', ''certificate'', ''index''}
            \<longrightarrow> query s \<noteq> None)
       \<and> country s = (if ensure_singular it product = ''currency_cross'' then None
                      else dict_get d ''country'')
       \<and> (ensure_singular it product \<noteq> ''currency_cross'' \<longrightarrow> country s \<noteq> None)
       \<and> aliases s = dataframe_aliases d (name s)"
  using assms
  by (auto simp: row_to_symbol_def Let_def getitem_def dict_get_def
      split: if_splits option.splits sum.splits)

lemma row_to_symbol_Inl:
  assumes "row_to_symbol it d product = Inl e"
  shows "e = KeyError
       \<and> ((ensure_singular it product \<noteq> ''currency_cross'' \<and> dict_get d ''country'' = None)
          \<or> dict_get d
              (if ensure_singular it product \<in> {''currency_cross'', ''bond'', ''commodity''}
               then ''name'' else ''symbol'') = None
          \<or> (ensure_singular it product \<in> {''etf'', ''fund'', ''certificate'', ''index''}
              \<and> dict_get d ''name'' = None))"
  using assms
  by (auto simp: row_to_symbol_def Let_def getitem_def dict_get_def
      split: if_splits option.splits sum.splits)

lemma rows_to_symbols_Inr:
  "rows_to_symbols it df product rs = Inr syms \<Longrightarrow>
     length syms = length rs
     \<and> (\<forall>i < length rs. row_to_symbol it (to_dict df (rs ! i)) product = Inr (syms ! i))"
proof (induction rs arbitrary: syms)
  case Nil
  then show ?case by simp
next
  case (Cons r rs)
  then obtain s ss where s: "row_to_symbol it (to_dict df r) product = Inr s"
    and ss: "rows_to_symbols it df product rs = Inr ss" and syms: "syms = s # ss"
    by (auto split: sum.splits)
  from Cons.IH [OF ss] s syms show ?case
    by (auto simp: nth_Cons split: nat.splits)
qed

lemma rows_to_symbols_Inl:
  "rows_to_symbols it df product rs = Inl e \<Longrightarrow>
     \<exists>r \<in> set rs. row_to_symbol it (to_dict df r) product = Inl e"
  by (induction rs) (auto split: sum.splits)

text \<open>
  Claim C3. \<open>_dataframe_to_symbols\<close> either raises \<open>KeyError\<close>, because some row lacks a
  column that the mapping reads, or returns one \<open>Symbol\<close> for each row, in order, built
  by the column mapping: the type is the singular of the product; the name is the cell
  of \<open>name\<close> for \<open>currency_cross\<close>, \<open>bond\<close> and \<open>commodity\<close> and the cell of \<open>symbol\<close> for
  every other type; the query is the cell of \<open>name\<close> exactly for \<open>etf\<close>, \<open>fund\<close>,
  \<open>certificate\<close> and \<open>index\<close>; and the country is the cell of \<open>country\<close> for every type
  but \<open>currency_cross\<close>, for which no country is passed.
\<close>

theorem dataframe_to_symbols_mapping:
  "(case dataframe_to_symbols it df product of
      Inl e \<Rightarrow>
        e = KeyError
        \<and> (\<exists>r \<in> set (rows df).
             (ensure_singular it product \<noteq> ''currency_cross''
                \<and> dict_get (to_dict df r) ''country'' = None)
             \<or> dict_get (to_dict df r)
                 (if ensure_singular it product \<in> {''currency_cross'', ''bond'', ''commodity''}
                  then ''name'' else ''symbol'') = None
             \<or> (ensure_singular it product \<in> {''etf'', ''fund'', ''certificate'', ''index''}
                 \<and> dict_get (to_dict df r) ''name'' = None))
    | Inr syms \<Rightarrow>
        length syms = length (rows df)
        \<and> (\<forall>i < length (rows df).
             type' (syms ! i) = ensure_singular it product
             \<and> Some (name (syms ! i)) = dict_get (to_dict df (rows df ! i))
                 (if ensure_singular it product \<in> {''currency_cross'', ''bond'', ''commodity''}
                  then ''name'' else ''symbol'')
             \<and> query (syms ! i)
                 = (if ensure_singular it product \<in> {''etf'', ''fund'', ''certificate'', ''index''}
                    then map_option QueryStr (dict_get (to_dict df (rows df ! i)) ''name'')
                    else None)
             \<and> (ensure_singular it product \<in> {''etf'', ''fund'', ''certificate'', ''index''}
                  \<longrightarrow> query (syms ! i) \<noteq> None)
             \<and> country (syms ! i)
                 = (if ensure_singular it product = ''currency_cross'' then None
                    else dict_get (to_dict df (rows df ! i)) ''country'')
             \<and> (ensure_singular it product \<noteq> ''currency_cross''
                  \<longrightarrow> country (syms ! i) \<noteq> None)))"
proof (cases "dataframe_to_symbols it df product")
  case (Inl e)
  then obtain r where r: "r \<in> set (rows df)"
    and bad: "row_to_symbol it (to_dict df r) product = Inl e"
    unfolding dataframe_to_symbols_def by (blast dest: rows_to_symbols_Inl)
  from row_to_symbol_Inl [OF bad] r Inl show ?thesis
    by (simp only: sum.case) blast
next
  case (Inr syms)
  then have len: "length syms = length (rows df)"
    and each: "\<And>i. i < length (rows df) \<Longrightarrow>
                 row_to_symbol it (to_dict df (rows df ! i)) product = Inr (syms ! i)"
    unfolding dataframe_to_symbols_def by (auto dest: rows_to_symbols_Inr)
  show ?thesis
    unfolding Inr sum.case
  proof (intro conjI allI impI)
    show "length syms = length (rows df)" by (rule len)
  next
    fix i assume "i < length (rows df)"
    from row_to_symbol_Inr [OF each [OF this]]
    show "type' (syms ! i) = ensure_singular it product"
      and "Some (name (syms ! i)) = dict_get (to_dict df (rows df ! i))
                 (if ensure_singular it product \<in> {''currency_cross'', ''bond'', ''commodity''}
                  then ''name'' else ''symbol'')"
      and "query (syms ! i)
                 = (if ensure_singular it product \<in> {''etf'', ''fund'', ''certificate'', ''index''}
                    then map_option QueryStr (dict_get (to_dict df (rows df ! i)) ''name'')
                    else None)"
      and "country (syms ! i)
                 = (if ensure_singular it product = ''currency_cross'' then None
                    else dict_get (to_dict df (rows df ! i)) ''country'')"
      by blast+
  next
    fix i assume "i < length (rows df)"
      and "ensure_singular it product \<in> {''etf'', ''fund'', ''certificate'', ''index''}"
    with row_to_symbol_Inr [OF each]
    show "query (syms ! i) \<noteq> None" by blast
  next
    fix i assume "i < length (rows df)"
      and "ensure_singular it product \<noteq> ''currency_cross''"
    with row_to_symbol_Inr [OF each]
    show "country (syms ! i) \<noteq> None" by blast
  qed
qed


lemmas eval_defs =
  dataframe_to_symbols_def row_to_symbol_def to_dict_def getitem_def dict_get_def
  dataframe_aliases_def py_union_def py_diff_def py_set_def py_inter_def

lemma example_funds_symbols:
  "dataframe_to_symbols example_types example_funds ''funds''
     = Inr [\<lparr>name = ''0P00000AAA'', type' = ''fund'', country = Some ''united states'',
             query = Some (QueryStr ''Aapl Growth Fund''),
             aliases = [Some ''Aapl Growth Fund'', None, Some ''US0000000001'']\<rparr>]"
  by (simp add: eval_defs example_types_def example_funds_def)

lemma example_crosses_symbols:
  "dataframe_to_symbols example_types example_crosses ''currency_crosses''
     = Inr [\<lparr>name = ''USD/CHF'', type' = ''currency_cross'', country = None, query = None,
             aliases = [Some ''USD/CHF'', Some ''US Dollar Swiss Franc'']\<rparr>]"
  by (simp add: eval_defs example_types_def example_crosses_def)

lemma example_crosses_as_stocks:
  "dataframe_to_symbols example_types example_crosses ''stocks'' = Inl KeyError"
  by (simp add: eval_defs example_types_def example_crosses_def)

theorem dataframe_to_symbols_mapping_witness:
  "dataframe_to_symbols example_types example_funds ''funds''
     = Inr [\<lparr>name = ''0P00000AAA'', type' = ''fund'', country = Some ''united states'',
             query = Some (QueryStr ''Aapl Growth Fund''),
             aliases = [Some ''Aapl Growth Fund'', None, Some ''US0000000001'']\<rparr>]
   \<and> dict_get (to_dict example_funds (rows example_funds ! 0)) ''symbol'' = Some ''0P00000AAA''
   \<and> dict_get (to_dict example_funds (rows example_funds ! 0)) ''name'' = Some ''Aapl Growth Fund''
   \<and> dict_get (to_dict example_funds (rows example_funds ! 0)) ''country'' = Some ''united states''
   \<and> dataframe_to_symbols example_types example_crosses ''stocks'' = Inl KeyError
   \<and> dict_get (to_dict example_crosses (rows example_crosses ! 0)) ''country'' = None"
proof -
  note funds = dataframe_to_symbols_mapping [where it = example_types and df = example_funds
      and product = "''funds''", unfolded example_funds_symbols sum.case,
      THEN conjunct2, rule_format, of 0]
  note crosses = dataframe_to_symbols_mapping [where it = example_types
      and df = example_crosses and product = "''stocks''",
      unfolded example_crosses_as_stocks sum.case, THEN conjunct1]
  have cells:
    "dict_get (to_dict example_funds (rows example_funds ! 0)) ''symbol'' = Some ''0P00000AAA''"
    "dict_get (to_dict example_funds (rows example_funds ! 0)) ''name'' = Some ''Aapl Growth Fund''"
    "dict_get (to_dict example_funds (rows example_funds ! 0)) ''country'' = Some ''united states''"
    "dict_get (to_dict example_crosses (rows example_crosses ! 0)) ''country'' = None"
    by (simp_all add: dict_get_def to_dict_def example_funds_def example_crosses_def)
  from funds crosses cells example_funds_symbols example_crosses_as_stocks
  show ?thesis by simp
qed

subsection \<open>Aliases\<close>

text \<open>
  \<open>_searchobj_to_symbols\<close> has no filter: the name of the search object is the only
  alias, also when it is the symbol that becomes the name.
\<close>

lemma searchobj_alias_unfiltered:
  "searchobj_to_symbols example_types [example_obj 2]
     = [searchobj_to_symbol example_types (example_obj 2)]
   \<and> name (searchobj_to_symbol example_types (example_obj 2)) = ''AAPL''
   \<and> aliases (searchobj_to_symbol example_types (example_obj 2)) = [Some ''AAPL'']"
  by (simp add: searchobj_to_symbols_def searchobj_to_symbol_def example_obj_def)

text \<open>
  Claim C4 fails on the code. The comments of lines 69 to 72 say that the set of aliases
  is made unique, that the value chosen as the name is removed from it, and \<open>None\<close> and
  the empty string too. But \<open>-\<close> binds tighter than \<open>|\<close>, so the two differences apply
  to the \<open>isin\<close> value only. For a currency cross the name comes from the column \<open>name\<close>
  and stays among the aliases; a dataframe of funds has no column \<open>full_name\<close>, and
  \<open>None\<close> becomes an alias.
\<close>

theorem dataframe_aliases_keep_name_and_none:
  "dataframe_to_symbols example_types example_crosses ''currency_crosses''
     = Inr [\<lparr>name = ''USD/CHF'', type' = ''currency_cross'', country = None, query = None,
             aliases = [Some ''USD/CHF'', Some ''US Dollar Swiss Franc'']\<rparr>]
   \<and> Some ''USD/CHF'' \<in> set [Some ''USD/CHF'', Some ''US Dollar Swiss Franc'']
   \<and> dataframe_to_symbols example_types example_funds ''funds''
     = Inr [\<lparr>name = ''0P00000AAA'', type' = ''fund'', country = Some ''united states'',
             query = Some (QueryStr ''Aapl Growth Fund''),
             aliases = [Some ''Aapl Growth Fund'', None, Some ''US0000000001'']\<rparr>]
   \<and> None \<in> set [Some ''Aapl Growth Fund'', None, Some ''US0000000001'']"
  using example_crosses_symbols example_funds_symbols by simp

subsection \<open>The dispatcher\<close>

lemma result_key_inj:
  assumes "by1 \<in> set valid_bys" and "by2 \<in> set valid_bys"
    and "result_key p1 by1 = result_key p2 by2"
  shows "p1 = p2 \<and> by1 = by2"
proof -
  from assms(3) have "rev (p1 @ ''_by_'' @ by1) = rev (p2 @ ''_by_'' @ by2)"
    by (simp add: result_key_def)
  with assms(1,2) show ?thesis
    by (auto simp: valid_bys_def)
qed

lemma map_sum_Inr_iff: "map_sum f g x = Inr r \<longleftrightarrow> (\<exists>y. x = Inr y \<and> r = g y)"
  by (cases x) auto

lemma search_combination_Some:
  "search_combination ip it q cs p b = Inr (Some syms) \<longleftrightarrow>
     (\<exists>df df'. search_by ip p b q = Inr df
        \<and> (case cs of None \<Rightarrow> Inr df | Some l \<Rightarrow> filter_countries df l) = Inr df'
        \<and> rows df' \<noteq> []
        \<and> dataframe_to_symbols it df' p = Inr syms)"
  by (auto simp: search_combination_def map_sum_Inr_iff split: sum.splits option.splits if_splits)

lemma search_combination_nonempty:
  assumes "search_combination ip it q cs p b = Inr r"
  shows "(r \<noteq> None) \<longleftrightarrow>
     (\<exists>df df'. search_by ip p b q = Inr df
        \<and> (case cs of None \<Rightarrow> Inr df | Some l \<Rightarrow> filter_countries df l) = Inr df'
        \<and> rows df' \<noteq> [])"
  using assms
  by (auto simp: search_combination_def map_sum_Inr_iff split: sum.splits option.splits if_splits)


lemma search_loop_Inl:
  "search_loop ip it q cs combos st = Inl e \<Longrightarrow>
     \<exists>(p, b) \<in> set combos. search_combination ip it q cs p b = Inl e"
proof (induction combos arbitrary: st)
  case Nil
  then show ?case by simp
next
  case (Cons c combos)
  obtain p b where c: "c = (p, b)" by (cases c)
  obtain res calls where st: "st = (res, calls)" by (cases st)
  show ?case
  proof (cases "search_combination ip it q cs p b")
    case (Inl e')
    with Cons.prems c st show ?thesis by simp
  next
    case (Inr r)
    with Cons.prems c st Cons.IH show ?thesis by fastforce
  qed
qed

lemma search_loop_step:
  assumes "search_loop ip it q cs ((p, b) # combos) (res, calls) = Inr st'"
  obtains r where "search_combination ip it q cs p b = Inr r"
    and "search_loop ip it q cs combos
           (case r of None \<Rightarrow> res | Some syms \<Rightarrow> res(result_key p b \<mapsto> syms),
            calls @ [(p, b, q)]) = Inr st'"
  using assms by (auto split: sum.splits)

lemma search_loop_all_Inr:
  "search_loop ip it q cs combos st = Inr st' \<Longrightarrow>
     \<forall>(p, b) \<in> set combos. \<exists>r. search_combination ip it q cs p b = Inr r"
proof (induction combos arbitrary: st)
  case Nil
  then show ?case by simp
next
  case (Cons c combos)
  obtain p b where c: "c = (p, b)" by (cases c)
  obtain res calls where st: "st = (res, calls)" by (cases st)
  from Cons.prems [unfolded c st] show ?case
  proof (rule search_loop_step)
    fix r assume "search_combination ip it q cs p b = Inr r"
      and "search_loop ip it q cs combos
            (case r of None \<Rightarrow> res | Some syms \<Rightarrow> res(result_key p b \<mapsto> syms),
             calls @ [(p, b, q)]) = Inr st'"
    with Cons.IH c show ?thesis by auto
  qed
qed


lemma search_loop_dom:
  "search_loop ip it q cs combos (res, calls) = Inr (res', calls') \<Longrightarrow>
     dom res' = dom res \<union>
       (\<lambda>(p, b). result_key p b) `
         set [(p, b) \<leftarrow> combos. \<exists>syms. search_combination ip it q cs p b = Inr (Some syms)]"
proof (induction combos arbitrary: res calls)
  case Nil
  then show ?case by simp
next
  case (Cons c combos)
  obtain p b where c: "c = (p, b)" by (cases c)
  from Cons.prems [unfolded c] show ?case
  proof (rule search_loop_step)
    fix r assume r: "search_combination ip it q cs p b = Inr r"
      and "search_loop ip it q cs combos
            (case r of None \<Rightarrow> res | Some syms \<Rightarrow> res(result_key p b \<mapsto> syms),
             calls @ [(p, b, q)]) = Inr (res', calls')"
    from Cons.IH [OF this(2)] r c show ?thesis
      by (cases r) auto
  qed
qed

lemma search_loop_values:
  "search_loop ip it q cs combos (res, calls) = Inr (res', calls') \<Longrightarrow> res' k = Some v \<Longrightarrow>
     res k = Some v
     \<or> (\<exists>(p, b) \<in> set combos. k = result_key p b
           \<and> search_combination ip it q cs p b = Inr (Some v))"
proof (induction combos arbitrary: res calls)
  case Nil
  then show ?case by simp
next
  case (Cons c combos)
  obtain p b where c: "c = (p, b)" by (cases c)
  from Cons.prems(1) [unfolded c] show ?case
  proof (rule search_loop_step)
    fix r assume r: "search_combination ip it q cs p b = Inr r"
      and "search_loop ip it q cs combos
            (case r of None \<Rightarrow> res | Some syms \<Rightarrow> res(result_key p b \<mapsto> syms),
             calls @ [(p, b, q)]) = Inr (res', calls')"
    from Cons.IH [OF this(2) Cons.prems(2)] r c show ?thesis
      by (cases r) (auto split: if_splits)
  qed
qed


lemma search_loop_key_Some:
  assumes run: "search_loop ip it q cs (List.product prods valid_bys) (Map.empty, []) = Inr (res, calls)"
    and p: "p \<in> set prods" and b: "b \<in> set valid_bys"
    and v: "res (result_key p b) = Some v"
  shows "search_combination ip it q cs p b = Inr (Some v)"
proof -
  from search_loop_values [OF run v]
  obtain p' b' where mem: "(p', b') \<in> set (List.product prods valid_bys)"
    and key: "result_key p b = result_key p' b'"
    and comb: "search_combination ip it q cs p' b' = Inr (Some v)"
    by auto
  from mem have "b' \<in> set valid_bys" by simp
  from result_key_inj [OF b this key] comb show ?thesis by simp
qed

lemma search_loop_key_dom:
  assumes run: "search_loop ip it q cs (List.product prods valid_bys) (Map.empty, []) = Inr (res, calls)"
    and p: "p \<in> set prods" and b: "b \<in> set valid_bys"
  shows "result_key p b \<in> dom res \<longleftrightarrow>
     (\<exists>df df'. search_by ip p b q = Inr df
        \<and> (case cs of None \<Rightarrow> Inr df | Some l \<Rightarrow> filter_countries df l) = Inr df'
        \<and> rows df' \<noteq> [])"
proof
  assume "result_key p b \<in> dom res"
  then obtain v where "res (result_key p b) = Some v" by auto
  from search_loop_key_Some [OF run p b this]
  show "\<exists>df df'. search_by ip p b q = Inr df
        \<and> (case cs of None \<Rightarrow> Inr df | Some l \<Rightarrow> filter_countries df l) = Inr df'
        \<and> rows df' \<noteq> []"
    unfolding search_combination_Some by blast
next
  assume frame: "\<exists>df df'. search_by ip p b q = Inr df
        \<and> (case cs of None \<Rightarrow> Inr df | Some l \<Rightarrow> filter_countries df l) = Inr df'
        \<and> rows df' \<noteq> []"
  from p b have mem: "(p, b) \<in> set (List.product prods valid_bys)" by simp
  with search_loop_all_Inr [OF run]
  obtain r where r: "search_combination ip it q cs p b = Inr r" by blast
  with frame search_combination_nonempty [OF r] obtain syms where "r = Some syms" by auto
  with r mem have "result_key p b \<in> (\<lambda>(p, b). result_key p b) `
         set [(p, b) \<leftarrow> List.product prods valid_bys.
                \<exists>syms. search_combination ip it q cs p b = Inr (Some syms)]"
    by force
  with search_loop_dom [OF run] show "result_key p b \<in> dom res" by simp
qed







lemma example_stocks_symbols:
  "dataframe_to_symbols example_types example_stocks ''stocks''
     = Inr [\<lparr>name = ''AAPL'', type' = ''stock'', country = Some ''united states'', query = None,
             aliases = [Some ''Apple'', Some ''Apple Inc'', Some ''US0378331005'']\<rparr>,
            \<lparr>name = ''AAPL'', type' = ''stock'', country = Some ''mexico'', query = None,
             aliases = [Some ''Apple'', Some ''Apple Inc'', Some ''US0378331005'']\<rparr>]"
  by (simp add: eval_defs example_types_def example_stocks_def)





subsection \<open>Upper case\<close>

lemma upper_char_idem: "upper_char (upper_char ch) = upper_char ch"
  by (simp add: upper_char_def)

lemma upper_char_not_lowercase: "\<not> is_ascii_lowercase (upper_char ch)"
  by (simp add: upper_char_def is_ascii_lowercase_def)

lemma str_upper_idem: "str_upper (str_upper s) = str_upper s"
  by (simp add: str_upper_def upper_char_idem)

lemma str_upper_no_lowercase: "\<forall>ch \<in> set (str_upper s). \<not> is_ascii_lowercase ch"
  by (simp add: str_upper_def upper_char_not_lowercase)

subsection \<open>The memoized price history\<close>

lemma bind_three_positional: "bind_price_args ([q, s, c], []) = Inr (q, s, c)"
  by (simp add: bind_price_args_def arg_value_def Let_def)

lemma price_history_call_hit:
  "map_of (cache w) ca = Some ph \<Longrightarrow> price_history_call srcs w ca = (Inr ph, w)"
  by (simp add: price_history_call_def)

lemma price_history_call_cases:
  obtains (hit) ph where "map_of (cache w) ca = Some ph"
      and "price_history_call srcs w ca = (Inr ph, w)"
  | (unbound) e where "map_of (cache w) ca = None" and "bind_price_args ca = Inl e"
      and "price_history_call srcs w ca = (Inl e, w)"
  | (fetched) q s c df cur where "map_of (cache w) ca = None"
      and "bind_price_args ca = Inr (q, s, c)" and "srcs s q c = Inr (df, cur)"
      and "price_history_call srcs w ca =
     (Inr \<lparr>ph_df = length (heap w), ph_currency = str_upper cur\<rparr>,
      w\<lparr>queries := queries w @ [(q, s, c)], heap := heap w @ [df],
        cache := (ca, \<lparr>ph_df = length (heap w), ph_currency = str_upper cur\<rparr>) # cache w\<rparr>)"
  | (raised) q s c e where "map_of (cache w) ca = None"
      and "bind_price_args ca = Inr (q, s, c)" and "srcs s q c = Inl e"
      and "price_history_call srcs w ca = (Inl e, w\<lparr>queries := queries w @ [(q, s, c)]\<rparr>)"
proof (cases "map_of (cache w) ca")
  case (Some ph)
  then have "price_history_call srcs w ca = (Inr ph, w)" by (simp add: price_history_call_def)
  with Some hit show ?thesis by blast
next
  case None
  show ?thesis
  proof (cases "bind_price_args ca")
    case (Inl e)
    with None have "price_history_call srcs w ca = (Inl e, w)"
      by (simp add: price_history_call_def)
    with None Inl unbound show ?thesis by blast
  next
    case (Inr b)
    obtain q s c where b: "b = (q, s, c)" by (cases b)
    show ?thesis
    proof (cases "srcs s q c")
      case (Inl e)
      with None Inr b
      have "price_history_call srcs w ca = (Inl e, w\<lparr>queries := queries w @ [(q, s, c)]\<rparr>)"
        by (simp add: price_history_call_def price_history_wrapped_def)
      with None Inr b Inl raised show ?thesis by blast
    next
      case (Inr r)
      obtain df cur where r: "r = (df, cur)" by (cases r)
      with Inr None \<open>bind_price_args ca = Inr b\<close> b have "price_history_call srcs w ca =
       (Inr \<lparr>ph_df = length (heap w), ph_currency = str_upper cur\<rparr>,
        w\<lparr>queries := queries w @ [(q, s, c)], heap := heap w @ [df],
          cache := (ca, \<lparr>ph_df = length (heap w), ph_currency = str_upper cur\<rparr>) # cache w\<rparr>)"
        by (simp add: price_history_call_def price_history_wrapped_def)
      with None Inr r \<open>bind_price_args ca = Inr b\<close> b fetched show ?thesis by blast
    qed
  qed
qed

lemma price_history_call_again:
  assumes "price_history_call srcs w ca = (Inr ph, w1)"
  shows "price_history_call srcs w1 ca = (Inr ph, w1)"
    and "map_of (cache w1) ca = Some ph"
    and "length (queries w1) \<le> length (queries w) + 1"
proof -
  have "price_history_call srcs w1 ca = (Inr ph, w1) \<and> map_of (cache w1) ca = Some ph
        \<and> length (queries w1) \<le> length (queries w) + 1"
  proof (cases rule: price_history_call_cases [of w ca srcs])
    case (hit ph')
    with assms show ?thesis by (simp add: price_history_call_hit)
  next
    case (unbound e)
    with assms show ?thesis by simp
  next
    case (fetched q s c df cur)
    with assms have "map_of (cache w1) ca = Some ph"
      and "length (queries w1) \<le> length (queries w) + 1" by auto
    then show ?thesis by (simp add: price_history_call_hit)
  next
    case (raised q s c e)
    with assms show ?thesis by simp
  qed
  then show "price_history_call srcs w1 ca = (Inr ph, w1)"
    and "map_of (cache w1) ca = Some ph"
    and "length (queries w1) \<le> length (queries w) + 1" by simp_all
qed

lemma price_history_call_other_keys:
  assumes "k \<noteq> ca"
  shows "map_of (cache (snd (price_history_call srcs w ca))) k = map_of (cache w) k"
  by (cases rule: price_history_call_cases [of w ca srcs]) (use assms in auto)

lemma cache_sound_iff:
  "cache_sound srcs w \<longleftrightarrow>
     (\<forall>ca ph. (ca, ph) \<in> set (cache w) \<longrightarrow>
        (\<exists>q s c df cur. bind_price_args ca = Inr (q, s, c) \<and> srcs s q c = Inr (df, cur)
           \<and> ph_currency ph = str_upper cur
           \<and> ph_df ph < length (heap w) \<and> heap w ! ph_df ph = df))"
proof
  assume sound: "cache_sound srcs w"
  show "\<forall>ca ph. (ca, ph) \<in> set (cache w) \<longrightarrow>
        (\<exists>q s c df cur. bind_price_args ca = Inr (q, s, c) \<and> srcs s q c = Inr (df, cur)
           \<and> ph_currency ph = str_upper cur
           \<and> ph_df ph < length (heap w) \<and> heap w ! ph_df ph = df)"
  proof (intro allI impI)
    fix ca ph assume "(ca, ph) \<in> set (cache w)"
    with sound [unfolded cache_sound_def, rule_format, of "(ca, ph)"]
    have entry: "case bind_price_args ca of Inl e \<Rightarrow> False
       | Inr (q, s, c) \<Rightarrow>
          (case srcs s q c of Inl e \<Rightarrow> False
           | Inr (df, cur) \<Rightarrow> ph_currency ph = str_upper cur
              \<and> ph_df ph < length (heap w) \<and> heap w ! ph_df ph = df)"
      by simp
    then obtain q s c where b: "bind_price_args ca = Inr (q, s, c)"
      by (cases "bind_price_args ca") auto
    with entry have "case srcs s q c of Inl e \<Rightarrow> False
           | Inr (df, cur) \<Rightarrow> ph_currency ph = str_upper cur
              \<and> ph_df ph < length (heap w) \<and> heap w ! ph_df ph = df" by simp
    then have "\<exists>df cur. srcs s q c = Inr (df, cur) \<and> ph_currency ph = str_upper cur
           \<and> ph_df ph < length (heap w) \<and> heap w ! ph_df ph = df"
      by (cases "srcs s q c") auto
    with b show "\<exists>q s c df cur. bind_price_args ca = Inr (q, s, c) \<and> srcs s q c = Inr (df, cur)
           \<and> ph_currency ph = str_upper cur
           \<and> ph_df ph < length (heap w) \<and> heap w ! ph_df ph = df"
      by blast
  qed
next
  assume all: "\<forall>ca ph. (ca, ph) \<in> set (cache w) \<longrightarrow>
        (\<exists>q s c df cur. bind_price_args ca = Inr (q, s, c) \<and> srcs s q c = Inr (df, cur)
           \<and> ph_currency ph = str_upper cur
           \<and> ph_df ph < length (heap w) \<and> heap w ! ph_df ph = df)"
  show "cache_sound srcs w"
    unfolding cache_sound_def
  proof (intro ballI)
    fix x assume x: "x \<in> set (cache w)"
    obtain ca ph where xe: "x = (ca, ph)" by (cases x)
    with x have mem: "(ca, ph) \<in> set (cache w)" by simp
    from all [rule_format, OF mem] obtain q s c df cur
      where "bind_price_args ca = Inr (q, s, c)" and "srcs s q c = Inr (df, cur)"
        and "ph_currency ph = str_upper cur" and "ph_df ph < length (heap w)"
        and "heap w ! ph_df ph = df" by blast
    with xe
    show "case x of (k, ph) \<Rightarrow>
            (case bind_price_args k of Inl e \<Rightarrow> False
             | Inr (q, s, c) \<Rightarrow>
                (case srcs s q c of Inl e \<Rightarrow> False
                 | Inr (df, cur) \<Rightarrow> ph_currency ph = str_upper cur
                     \<and> ph_df ph < length (heap w) \<and> heap w ! ph_df ph = df))"
      by simp
  qed
qed

lemma cache_sound_lookup:
  assumes "cache_sound srcs w" and "map_of (cache w) ca = Some ph"
  obtains q s c df cur where "bind_price_args ca = Inr (q, s, c)"
    and "srcs s q c = Inr (df, cur)" and "ph_currency ph = str_upper cur"
    and "ph_df ph < length (heap w)" and "heap w ! ph_df ph = df"
proof -
  from assms(2) have mem: "(ca, ph) \<in> set (cache w)" by (rule map_of_SomeD)
  from assms(1) [unfolded cache_sound_iff, rule_format, OF mem]
  obtain q s c df cur where "bind_price_args ca = Inr (q, s, c)"
    and "srcs s q c = Inr (df, cur)" and "ph_currency ph = str_upper cur"
    and "ph_df ph < length (heap w)" and "heap w ! ph_df ph = df" by blast
  then show ?thesis by (rule that)
qed

lemma observe_wrapped:
  "observe (price_history_wrapped srcs w q s c)
     = map_sum id (\<lambda>(df, cur). (df, str_upper cur)) (srcs s q c)"
  by (cases "srcs s q c") (auto simp: observe_def price_history_wrapped_def Let_def)

lemma observe_uncached:
  "observe (price_history_uncached srcs w ca)
     = (case bind_price_args ca of
          Inl e \<Rightarrow> Inl e
        | Inr (q, s, c) \<Rightarrow> map_sum id (\<lambda>(df, cur). (df, str_upper cur)) (srcs s q c))"
proof (cases "bind_price_args ca")
  case (Inl e)
  then show ?thesis by (simp add: price_history_uncached_def observe_def)
next
  case (Inr b)
  obtain q s c where "b = (q, s, c)" by (cases b)
  with Inr show ?thesis by (simp add: price_history_uncached_def observe_wrapped)
qed

lemma observe_price_history_call:
  assumes "cache_sound srcs w"
  shows "observe (price_history_call srcs w ca) = observe (price_history_uncached srcs w ca)"
proof (cases rule: price_history_call_cases [of w ca srcs])
  case (hit ph)
  from assms hit(1) obtain q s c df cur where "bind_price_args ca = Inr (q, s, c)"
    and "srcs s q c = Inr (df, cur)"
    and "ph_currency ph = str_upper cur" and "heap w ! ph_df ph = df"
    by (rule cache_sound_lookup)
  with hit(2) show ?thesis by (simp add: observe_uncached) (simp add: observe_def)
next
  case (unbound e)
  then show ?thesis by (simp add: observe_uncached) (simp add: observe_def)
next
  case (fetched q s c df cur)
  then show ?thesis by (simp add: observe_uncached) (simp add: observe_def)
next
  case (raised q s c e)
  then show ?thesis by (simp add: observe_uncached) (simp add: observe_def)
qed

lemma cache_sound_price_history_call:
  assumes "cache_sound srcs w"
  shows "cache_sound srcs (snd (price_history_call srcs w ca))"
proof (cases rule: price_history_call_cases [of w ca srcs])
  case (hit ph)
  with assms show ?thesis by simp
next
  case (unbound e)
  with assms show ?thesis by simp
next
  case (fetched q s c df cur)
  show ?thesis
    unfolding cache_sound_iff fetched(4)
  proof (intro allI impI)
    fix ca' ph'
    assume "(ca', ph') \<in> set (cache (snd
      (Inr \<lparr>ph_df = length (heap w), ph_currency = str_upper cur\<rparr>,
       w\<lparr>queries := queries w @ [(q, s, c)], heap := heap w @ [df],
         cache := (ca, \<lparr>ph_df = length (heap w), ph_currency = str_upper cur\<rparr>) # cache w\<rparr>)))"
    then consider (new) "ca' = ca"
        "ph' = \<lparr>ph_df = length (heap w), ph_currency = str_upper cur\<rparr>"
      | (old) "(ca', ph') \<in> set (cache w)" by auto
    then show "\<exists>q' s' c' df' cur'. bind_price_args ca' = Inr (q', s', c')
        \<and> srcs s' q' c' = Inr (df', cur') \<and> ph_currency ph' = str_upper cur'
        \<and> ph_df ph' < length (heap (snd
      (Inr \<lparr>ph_df = length (heap w), ph_currency = str_upper cur\<rparr>,
       w\<lparr>queries := queries w @ [(q, s, c)], heap := heap w @ [df],
         cache := (ca, \<lparr>ph_df = length (heap w), ph_currency = str_upper cur\<rparr>) # cache w\<rparr>)))
        \<and> heap (snd
      (Inr \<lparr>ph_df = length (heap w), ph_currency = str_upper cur\<rparr>,
       w\<lparr>queries := queries w @ [(q, s, c)], heap := heap w @ [df],
         cache := (ca, \<lparr>ph_df = length (heap w), ph_currency = str_upper cur\<rparr>) # cache w\<rparr>))
           ! ph_df ph' = df'"
    proof cases
      case new
      with fetched(2,3) show ?thesis by simp
    next
      case old
      with assms obtain q' s' c' df' cur' where "bind_price_args ca' = Inr (q', s', c')"
        and "srcs s' q' c' = Inr (df', cur')"
        and "ph_currency ph' = str_upper cur'"
        and "ph_df ph' < length (heap w)" and "heap w ! ph_df ph' = df'"
        unfolding cache_sound_iff by blast
      then show ?thesis by (simp add: nth_append)
    qed
  qed
next
  case (raised q s c e)
  with assms show ?thesis by (simp add: cache_sound_iff)
qed

lemma snd_price_point: "snd (price_point srcs w q t s c) = snd (price_history srcs w q s c)"
proof (cases "price_history srcs w q s c")
  case (Pair r w')
  then show ?thesis
    by (cases r) (simp_all add: price_point_def Let_def split: sum.split)
qed

lemma snd_price_point_strict:
  "snd (price_point_strict srcs w q t s c) = snd (price_history srcs w q s c)"
proof (cases "price_history srcs w q s c")
  case (Pair r w')
  then show ?thesis
    by (cases r) (simp_all add: price_point_strict_def Let_def split: sum.split)
qed

lemma snd_price_latest: "snd (price_latest srcs w q s c) = snd (price_history srcs w q s c)"
proof (cases "price_history srcs w q s c")
  case (Pair r w')
  then show ?thesis
    by (cases r) (simp_all add: price_latest_def Let_def split: sum.split)
qed

lemma cache_sound_step:
  assumes "cache_sound srcs w" and "\<not> is_mutation a"
  shows "cache_sound srcs (step srcs a w)"
  using assms
  by (cases a)
     (simp_all add: snd_price_point snd_price_point_strict snd_price_latest
        price_history_def cache_sound_price_history_call, simp add: cache_sound_iff)

lemma cache_sound_run:
  "cache_sound srcs w \<Longrightarrow> list_all (\<lambda>a. \<not> is_mutation a) acts \<Longrightarrow>
     cache_sound srcs (run srcs acts w)"
  unfolding run_def
  by (induction acts arbitrary: w) (simp_all add: cache_sound_step)

lemma cache_sound_init: "cache_sound srcs init_world"
  by (simp add: cache_sound_iff init_world_def)

lemma str_upper_usd: "str_upper ''usd'' = ''USD''"
  by (simp add: str_upper_def upper_char_def)

lemma example_first_call:
  "price_history example_sources init_world ''AAPL'' ''yahoo'' ''USD''
     = (Inr \<lparr>ph_df = 0, ph_currency = ''USD''\<rparr>, example_world)"
  by (simp add: price_history_def price_history_call_def bind_three_positional
      price_history_wrapped_def init_world_def
      example_sources_def example_world_def str_upper_usd)

lemma example_run:
  "run example_sources [CallPriceHistory ''AAPL'' ''yahoo'' ''USD''] init_world = example_world"
  by (simp add: run_def example_first_call)

lemma bind_defaults:
  "bind_price_args ([''AAPL''], []) = Inr (''AAPL'', ''yahoo'', ''USD'')"
  "bind_price_args ([''AAPL''], [(''source'', ''yahoo'')]) = Inr (''AAPL'', ''yahoo'', ''USD'')"
  by (simp_all add: bind_price_args_def arg_value_def Let_def)

text \<open>
  Claim C5, as stated, fails: the cache is keyed on the arguments as the call writes
  them, not on the values that the parameters get. \<open>price_history("AAPL")\<close> and
  \<open>price_history("AAPL", "yahoo", "USD")\<close> bind the same query, source and currency
  preference, and so do \<open>price_history("AAPL", source="yahoo")\<close> and
  \<open>price_latest("AAPL")\<close>, which calls \<open>price_history\<close> with three positional
  arguments; each of them is an entry of its own, so the source is queried twice and
  the second result is another dataframe object.
\<close>

theorem price_history_call_forms_counterexample:
  "bind_price_args ([''AAPL''], []) = Inr (''AAPL'', ''yahoo'', ''USD'')
   \<and> bind_price_args ([''AAPL'', ''yahoo'', ''USD''], []) = Inr (''AAPL'', ''yahoo'', ''USD'')
   \<and> bind_price_args ([''AAPL''], [(''source'', ''yahoo'')]) = Inr (''AAPL'', ''yahoo'', ''USD'')
   \<and> queries (run example_sources
        [CallPriceHistoryAs [''AAPL''] [],
         CallPriceHistoryAs [''AAPL'', ''yahoo'', ''USD''] []] init_world)
     = [(''AAPL'', ''yahoo'', ''USD''), (''AAPL'', ''yahoo'', ''USD'')]
   \<and> queries (run example_sources
        [CallPriceHistoryAs [''AAPL''] [(''source'', ''yahoo'')],
         CallPriceLatest ''AAPL'' ''yahoo'' ''USD''] init_world)
     = [(''AAPL'', ''yahoo'', ''USD''), (''AAPL'', ''yahoo'', ''USD'')]
   \<and> fst (price_history_call example_sources init_world ([''AAPL''], []))
     = Inr \<lparr>ph_df = 0, ph_currency = ''USD''\<rparr>
   \<and> fst (price_history_call example_sources
        (snd (price_history_call example_sources init_world ([''AAPL''], [])))
        ([''AAPL'', ''yahoo'', ''USD''], []))
     = Inr \<lparr>ph_df = 1, ph_currency = ''USD''\<rparr>"
  by (simp add: run_def price_history_call_def price_history_def snd_price_latest
      bind_three_positional bind_defaults
      price_history_wrapped_def init_world_def example_sources_def str_upper_usd)

text \<open>
  Claim C5, amended. A call of \<open>price_history\<close> that returns leaves an entry for its
  arguments as written in the cache, so a second call written with the same arguments
  returns the same \<open>PriceHistory\<close> and sends no query to the source: over the two calls
  the source is queried at most once. The entries of calls written with other arguments
  are not touched. As long as no caller changes a returned dataframe in place, the cache
  is sound and the memoized function returns what the function without the cache
  returns for the same call: the same dataframe content and currency, or the same
  exception.
\<close>

theorem price_history_memoized:
  "(price_history_call srcs w ca = (Inr ph, w1) \<longrightarrow>
      price_history_call srcs w1 ca = (Inr ph, w1)
      \<and> length (queries w1) \<le> length (queries w) + 1
      \<and> map_of (cache w1) ca = Some ph)
   \<and> (k \<noteq> ca \<longrightarrow>
        map_of (cache (snd (price_history_call srcs w ca))) k = map_of (cache w) k)
   \<and> (list_all (\<lambda>a. \<not> is_mutation a) acts \<longrightarrow>
        cache_sound srcs (run srcs acts init_world)
        \<and> observe (price_history_call srcs (run srcs acts init_world) ca)
            = observe (price_history_uncached srcs (run srcs acts init_world) ca))"
proof (intro conjI impI)
  assume "price_history_call srcs w ca = (Inr ph, w1)"
  then show "price_history_call srcs w1 ca = (Inr ph, w1)"
    and "length (queries w1) \<le> length (queries w) + 1"
    and "map_of (cache w1) ca = Some ph"
    by (rule price_history_call_again)+
next
  assume "k \<noteq> ca"
  then show "map_of (cache (snd (price_history_call srcs w ca))) k = map_of (cache w) k"
    by (rule price_history_call_other_keys)
next
  assume "list_all (\<lambda>a. \<not> is_mutation a) acts"
  with cache_sound_init show sound: "cache_sound srcs (run srcs acts init_world)"
    by (rule cache_sound_run)
  show "observe (price_history_call srcs (run srcs acts init_world) ca)
            = observe (price_history_uncached srcs (run srcs acts init_world) ca)"
    by (rule observe_price_history_call [OF sound])
qed

lemma example_first_call_as:
  "price_history_call example_sources init_world ([''AAPL'', ''yahoo'', ''USD''], [])
     = (Inr \<lparr>ph_df = 0, ph_currency = ''USD''\<rparr>, example_world)"
  using example_first_call by (simp add: price_history_def)

theorem price_history_memoized_witness:
  "price_history_call example_sources init_world ([''AAPL'', ''yahoo'', ''USD''], [])
     = (Inr \<lparr>ph_df = 0, ph_currency = ''USD''\<rparr>, example_world)
   \<and> price_history_call example_sources example_world ([''AAPL'', ''yahoo'', ''USD''], [])
     = (Inr \<lparr>ph_df = 0, ph_currency = ''USD''\<rparr>, example_world)
   \<and> length (queries example_world) \<le> length (queries init_world) + 1
   \<and> ([''AAPL''], []) \<noteq> ([''AAPL'', ''yahoo'', ''USD''], [])
   \<and> map_of (cache example_world) ([''AAPL''], []) = None
   \<and> list_all (\<lambda>a. \<not> is_mutation a) [CallPriceHistory ''AAPL'' ''yahoo'' ''USD'']
   \<and> cache_sound example_sources example_world
   \<and> observe (price_history_call example_sources example_world
        ([''AAPL'', ''yahoo'', ''USD''], []))
       = observe (price_history_uncached example_sources example_world
        ([''AAPL'', ''yahoo'', ''USD''], []))"
proof -
  note inst = price_history_memoized [where srcs = example_sources and w = init_world
      and ca = "([''AAPL'', ''yahoo'', ''USD''], [])"
      and ph = "\<lparr>ph_df = 0, ph_currency = ''USD''\<rparr>" and ?w1.0 = example_world
      and k = "([''AAPL''], [])"
      and acts = "[CallPriceHistory ''AAPL'' ''yahoo'' ''USD'']", unfolded example_run]
  note again = inst [THEN conjunct1, rule_format, OF example_first_call_as]
  note other = inst [THEN conjunct2, THEN conjunct1, rule_format,
      unfolded example_first_call_as]
  note sound = inst [THEN conjunct2, THEN conjunct2, rule_format]
  have k: "([''AAPL''], []) \<noteq> ([''AAPL'', ''yahoo'', ''USD''], [])" by simp
  have acts: "list_all (\<lambda>a. \<not> is_mutation a) [CallPriceHistory ''AAPL'' ''yahoo'' ''USD'']"
    by simp
  from other [OF k] have "map_of (cache example_world) ([''AAPL''], []) = None"
    by (simp add: init_world_def)
  with example_first_call_as again k acts sound [OF acts] show ?thesis by simp
qed

text \<open>
  Claim C6 fails on the code. The copy of the dataframe is made inside the memoized
  function, so the cache holds the copy and every later call returns that same object:
  after the caller has emptied the dataframe of the first result, the second call with
  the same arguments returns address \<open>0\<close> again, now with the changed content, while the
  function without the decorator would return the content of the source; \<open>price_latest\<close>
  then raises \<open>IndexError\<close>.
\<close>

theorem price_history_returns_cached_object:
  "price_history example_sources init_world ''AAPL'' ''yahoo'' ''USD''
     = (Inr \<lparr>ph_df = 0, ph_currency = ''USD''\<rparr>, example_world)
   \<and> observe (price_history example_sources init_world ''AAPL'' ''yahoo'' ''USD'')
       = Inr (example_prices, ''USD'')
   \<and> price_history example_sources (step example_sources (Mutate 0 []) example_world)
        ''AAPL'' ''yahoo'' ''USD''
     = (Inr \<lparr>ph_df = 0, ph_currency = ''USD''\<rparr>, example_world\<lparr>heap := [[]]\<rparr>)
   \<and> observe (price_history example_sources (step example_sources (Mutate 0 []) example_world)
        ''AAPL'' ''yahoo'' ''USD'') = Inr ([], ''USD'')
   \<and> observe (price_history_wrapped example_sources
        (step example_sources (Mutate 0 []) example_world) ''AAPL'' ''yahoo'' ''USD'')
       = Inr (example_prices, ''USD'')
   \<and> fst (price_latest example_sources init_world ''AAPL'' ''yahoo'' ''USD'')
       = Inr \<lparr>pp_when = days 18267, pp_price = 74.95, pp_currency = ''USD''\<rparr>
   \<and> fst (price_latest example_sources (step example_sources (Mutate 0 []) example_world)
        ''AAPL'' ''yahoo'' ''USD'') = Inl IndexError"
proof -
  have second: "price_history example_sources (step example_sources (Mutate 0 []) example_world)
        ''AAPL'' ''yahoo'' ''USD''
     = (Inr \<lparr>ph_df = 0, ph_currency = ''USD''\<rparr>, example_world\<lparr>heap := [[]]\<rparr>)"
    by (simp add: price_history_def price_history_call_def example_world_def)
  have wrapped: "observe (price_history_wrapped example_sources
        (step example_sources (Mutate 0 []) example_world) ''AAPL'' ''yahoo'' ''USD'')
       = Inr (example_prices, ''USD'')"
    by (simp add: observe_wrapped example_sources_def str_upper_usd)
  have latest1: "fst (price_latest example_sources init_world ''AAPL'' ''yahoo'' ''USD'')
       = Inr \<lparr>pp_when = days 18267, pp_price = 74.95, pp_currency = ''USD''\<rparr>"
    by (simp add: price_latest_def example_first_call example_world_def iloc_def
        example_prices_def)
  have latest2: "fst (price_latest example_sources
        (step example_sources (Mutate 0 []) example_world) ''AAPL'' ''yahoo'' ''USD'')
       = Inl IndexError"
    unfolding price_latest_def second by (simp add: iloc_def example_world_def)
  from example_first_call second wrapped latest1 latest2 show ?thesis
    by (simp add: observe_def example_world_def)
qed

subsection \<open>The currency of a result\<close>

lemma cache_currencies_iff:
  "cache_currencies srcs w \<longleftrightarrow>
     (\<forall>ca ph. (ca, ph) \<in> set (cache w) \<longrightarrow>
        (\<exists>q s c df cur. bind_price_args ca = Inr (q, s, c) \<and> srcs s q c = Inr (df, cur)
           \<and> ph_currency ph = str_upper cur))"
proof
  assume inv: "cache_currencies srcs w"
  show "\<forall>ca ph. (ca, ph) \<in> set (cache w) \<longrightarrow>
        (\<exists>q s c df cur. bind_price_args ca = Inr (q, s, c) \<and> srcs s q c = Inr (df, cur)
           \<and> ph_currency ph = str_upper cur)"
  proof (intro allI impI)
    fix ca ph assume "(ca, ph) \<in> set (cache w)"
    with inv [unfolded cache_currencies_def, rule_format, of "(ca, ph)"]
    have entry: "case bind_price_args ca of Inl e \<Rightarrow> False
       | Inr (q, s, c) \<Rightarrow>
          (case srcs s q c of Inl e \<Rightarrow> False
           | Inr (df, cur) \<Rightarrow> ph_currency ph = str_upper cur)"
      by simp
    then obtain q s c where b: "bind_price_args ca = Inr (q, s, c)"
      by (cases "bind_price_args ca") auto
    with entry have "case srcs s q c of Inl e \<Rightarrow> False
           | Inr (df, cur) \<Rightarrow> ph_currency ph = str_upper cur" by simp
    then have "\<exists>df cur. srcs s q c = Inr (df, cur) \<and> ph_currency ph = str_upper cur"
      by (cases "srcs s q c") auto
    with b show "\<exists>q s c df cur. bind_price_args ca = Inr (q, s, c)
           \<and> srcs s q c = Inr (df, cur) \<and> ph_currency ph = str_upper cur"
      by blast
  qed
next
  assume all: "\<forall>ca ph. (ca, ph) \<in> set (cache w) \<longrightarrow>
        (\<exists>q s c df cur. bind_price_args ca = Inr (q, s, c) \<and> srcs s q c = Inr (df, cur)
           \<and> ph_currency ph = str_upper cur)"
  show "cache_currencies srcs w"
    unfolding cache_currencies_def
  proof (intro ballI)
    fix x assume x: "x \<in> set (cache w)"
    obtain ca ph where xe: "x = (ca, ph)" by (cases x)
    with x have mem: "(ca, ph) \<in> set (cache w)" by simp
    from all [rule_format, OF mem] obtain q s c df cur
      where "bind_price_args ca = Inr (q, s, c)" and "srcs s q c = Inr (df, cur)"
      and "ph_currency ph = str_upper cur" by blast
    with xe
    show "case x of (k, ph) \<Rightarrow>
            (case bind_price_args k of Inl e \<Rightarrow> False
             | Inr (q, s, c) \<Rightarrow>
                (case srcs s q c of Inl e \<Rightarrow> False
                 | Inr (df, cur) \<Rightarrow> ph_currency ph = str_upper cur))"
      by simp
  qed
qed

lemma cache_currencies_price_history_call:
  assumes "cache_currencies srcs w"
  shows "cache_currencies srcs (snd (price_history_call srcs w ca))"
proof (cases rule: price_history_call_cases [of w ca srcs])
  case (hit ph)
  with assms show ?thesis by simp
next
  case (unbound e)
  with assms show ?thesis by simp
next
  case (fetched q s c df cur)
  with assms show ?thesis by (auto simp: cache_currencies_iff)
next
  case (raised q s c e)
  with assms show ?thesis by (simp add: cache_currencies_iff)
qed

lemma cache_currencies_step:
  assumes "cache_currencies srcs w"
  shows "cache_currencies srcs (step srcs a w)"
proof (cases a)
  case (Mutate addr df)
  with assms show ?thesis by (simp add: cache_currencies_iff)
next
  case CacheClear
  then show ?thesis by (simp add: cache_currencies_iff)
qed (use assms in \<open>simp_all add: snd_price_point snd_price_point_strict snd_price_latest
        price_history_def cache_currencies_price_history_call\<close>)

lemma cache_currencies_run: "cache_currencies srcs (run srcs acts init_world)"
proof -
  have "cache_currencies srcs w \<Longrightarrow> cache_currencies srcs (fold (step srcs) acts w)" for w
    by (induction acts arbitrary: w) (simp_all add: cache_currencies_step)
  moreover have "cache_currencies srcs init_world"
    by (simp add: cache_currencies_iff init_world_def)
  ultimately show ?thesis unfolding run_def by blast
qed

lemma price_history_call_currency:
  assumes "cache_currencies srcs w" and "price_history_call srcs w ca = (Inr ph, w1)"
  shows "\<exists>q s c df cur. bind_price_args ca = Inr (q, s, c) \<and> srcs s q c = Inr (df, cur)
           \<and> ph_currency ph = str_upper cur"
proof (cases rule: price_history_call_cases [of w ca srcs])
  case (hit ph')
  with assms(2) have "(ca, ph) \<in> set (cache w)" by (auto dest: map_of_SomeD)
  with assms(1) show ?thesis unfolding cache_currencies_iff by blast
next
  case (unbound e)
  with assms(2) show ?thesis by simp
next
  case (fetched q s c df cur)
  with assms(2) show ?thesis by auto
next
  case (raised q s c e)
  with assms(2) show ?thesis by simp
qed

lemma price_history_currency:
  assumes "cache_currencies srcs w" and "price_history srcs w q s c = (Inr ph, w1)"
  shows "\<exists>df cur. srcs s q c = Inr (df, cur) \<and> ph_currency ph = str_upper cur"
  using price_history_call_currency [OF assms(1) assms(2) [unfolded price_history_def]]
  by (simp add: bind_three_positional)

lemma price_point_currency:
  assumes "price_point srcs w q t s c = (Inr pp, w1)"
  shows "\<exists>ph. price_history srcs w q s c = (Inr ph, w1) \<and> pp_currency pp = ph_currency ph"
proof (cases "price_history srcs w q s c")
  case (Pair r w')
  with assms show ?thesis
    by (cases r) (auto simp: price_point_def Let_def split: sum.splits)
qed

lemma price_point_strict_currency:
  assumes "price_point_strict srcs w q t s c = (Inr pp, w1)"
  shows "\<exists>ph. price_history srcs w q s c = (Inr ph, w1) \<and> pp_currency pp = ph_currency ph"
proof (cases "price_history srcs w q s c")
  case (Pair r w')
  with assms show ?thesis
    by (cases r) (auto simp: price_point_strict_def Let_def split: sum.splits)
qed

lemma price_latest_currency:
  assumes "price_latest srcs w q s c = (Inr pp, w1)"
  shows "\<exists>ph. price_history srcs w q s c = (Inr ph, w1) \<and> pp_currency pp = ph_currency ph"
proof (cases "price_history srcs w q s c")
  case (Pair r w')
  with assms show ?thesis
    by (cases r) (auto simp: price_latest_def Let_def split: sum.splits)
qed

lemma upper_case_currency:
  assumes "x = str_upper cur"
  shows "str_upper x = x" and "\<forall>ch \<in> set x. \<not> is_ascii_lowercase ch"
  using assms by (simp_all add: str_upper_idem str_upper_no_lowercase)

text \<open>
  Claim C10. In every state that callers can reach, a \<open>PriceHistory\<close> returned by
  \<open>price_history\<close> carries the effective currency of the source in upper case, whatever
  the case in which the source gives it: upper-casing it again changes nothing and it has
  no lower-case letter. The same holds for the currency of every \<open>PricePoint\<close> returned
  by \<open>price_point\<close>, \<open>price_point_strict\<close> and \<open>price_latest\<close>, and for a call of
  \<open>price_history\<close> with its arguments written in any other way.
\<close>

theorem price_currency_upper_case:
  "(price_history srcs (run srcs acts init_world) q s c = (Inr ph, w1) \<longrightarrow>
      (\<exists>df cur. srcs s q c = Inr (df, cur) \<and> ph_currency ph = str_upper cur)
      \<and> str_upper (ph_currency ph) = ph_currency ph
      \<and> (\<forall>ch \<in> set (ph_currency ph). \<not> is_ascii_lowercase ch))
   \<and> (price_point srcs (run srcs acts init_world) q t s c = (Inr pp1, w2) \<longrightarrow>
      (\<exists>df cur. srcs s q c = Inr (df, cur) \<and> pp_currency pp1 = str_upper cur)
      \<and> str_upper (pp_currency pp1) = pp_currency pp1
      \<and> (\<forall>ch \<in> set (pp_currency pp1). \<not> is_ascii_lowercase ch))
   \<and> (price_point_strict srcs (run srcs acts init_world) q wh s c = (Inr pp2, w3) \<longrightarrow>
      (\<exists>df cur. srcs s q c = Inr (df, cur) \<and> pp_currency pp2 = str_upper cur)
      \<and> str_upper (pp_currency pp2) = pp_currency pp2
      \<and> (\<forall>ch \<in> set (pp_currency pp2). \<not> is_ascii_lowercase ch))
   \<and> (price_latest srcs (run srcs acts init_world) q s c = (Inr pp3, w4) \<longrightarrow>
      (\<exists>df cur. srcs s q c = Inr (df, cur) \<and> pp_currency pp3 = str_upper cur)
      \<and> str_upper (pp_currency pp3) = pp_currency pp3
      \<and> (\<forall>ch \<in> set (pp_currency pp3). \<not> is_ascii_lowercase ch))
   \<and> (price_history_call srcs (run srcs acts init_world) ca = (Inr ph5, w5) \<longrightarrow>
      (\<exists>q' s' c' df cur. bind_price_args ca = Inr (q', s', c')
          \<and> srcs s' q' c' = Inr (df, cur) \<and> ph_currency ph5 = str_upper cur)
      \<and> str_upper (ph_currency ph5) = ph_currency ph5
      \<and> (\<forall>ch \<in> set (ph_currency ph5). \<not> is_ascii_lowercase ch))"
proof -
  note inv = cache_currencies_run [of srcs acts]
  have history: "(\<exists>df cur. srcs s q c = Inr (df, cur) \<and> x = str_upper cur)
      \<and> str_upper x = x \<and> (\<forall>ch \<in> set x. \<not> is_ascii_lowercase ch)"
    if "price_history srcs (run srcs acts init_world) q s c = (Inr ph', w')"
      and "x = ph_currency ph'" for ph' w' x
  proof -
    from price_history_currency [OF inv that(1)] that(2)
    obtain df cur where src: "srcs s q c = Inr (df, cur)" and x: "x = str_upper cur"
      by auto
    from src x upper_case_currency [OF x] show ?thesis by blast
  qed
  have "price_history srcs (run srcs acts init_world) q s c = (Inr ph, w1) \<longrightarrow>
      (\<exists>df cur. srcs s q c = Inr (df, cur) \<and> ph_currency ph = str_upper cur)
      \<and> str_upper (ph_currency ph) = ph_currency ph
      \<and> (\<forall>ch \<in> set (ph_currency ph). \<not> is_ascii_lowercase ch)"
    using history by blast
  moreover
  have "price_point srcs (run srcs acts init_world) q t s c = (Inr pp1, w2) \<longrightarrow>
      (\<exists>df cur. srcs s q c = Inr (df, cur) \<and> pp_currency pp1 = str_upper cur)
      \<and> str_upper (pp_currency pp1) = pp_currency pp1
      \<and> (\<forall>ch \<in> set (pp_currency pp1). \<not> is_ascii_lowercase ch)"
  proof
    assume "price_point srcs (run srcs acts init_world) q t s c = (Inr pp1, w2)"
    from price_point_currency [OF this] obtain ph'
      where "price_history srcs (run srcs acts init_world) q s c = (Inr ph', w2)"
        and "pp_currency pp1 = ph_currency ph'" by blast
    then show "(\<exists>df cur. srcs s q c = Inr (df, cur) \<and> pp_currency pp1 = str_upper cur)
      \<and> str_upper (pp_currency pp1) = pp_currency pp1
      \<and> (\<forall>ch \<in> set (pp_currency pp1). \<not> is_ascii_lowercase ch)"
      by (rule history)
  qed
  moreover
  have "price_point_strict srcs (run srcs acts init_world) q wh s c = (Inr pp2, w3) \<longrightarrow>
      (\<exists>df cur. srcs s q c = Inr (df, cur) \<and> pp_currency pp2 = str_upper cur)
      \<and> str_upper (pp_currency pp2) = pp_currency pp2
      \<and> (\<forall>ch \<in> set (pp_currency pp2). \<not> is_ascii_lowercase ch)"
  proof
    assume "price_point_strict srcs (run srcs acts init_world) q wh s c = (Inr pp2, w3)"
    from price_point_strict_currency [OF this] obtain ph'
      where "price_history srcs (run srcs acts init_world) q s c = (Inr ph', w3)"
        and "pp_currency pp2 = ph_currency ph'" by blast
    then show "(\<exists>df cur. srcs s q c = Inr (df, cur) \<and> pp_currency pp2 = str_upper cur)
      \<and> str_upper (pp_currency pp2) = pp_currency pp2
      \<and> (\<forall>ch \<in> set (pp_currency pp2). \<not> is_ascii_lowercase ch)"
      by (rule history)
  qed
  moreover
  have "price_latest srcs (run srcs acts init_world) q s c = (Inr pp3, w4) \<longrightarrow>
      (\<exists>df cur. srcs s q c = Inr (df, cur) \<and> pp_currency pp3 = str_upper cur)
      \<and> str_upper (pp_currency pp3) = pp_currency pp3
      \<and> (\<forall>ch \<in> set (pp_currency pp3). \<not> is_ascii_lowercase ch)"
  proof
    assume "price_latest srcs (run srcs acts init_world) q s c = (Inr pp3, w4)"
    from price_latest_currency [OF this] obtain ph'
      where "price_history srcs (run srcs acts init_world) q s c = (Inr ph', w4)"
        and "pp_currency pp3 = ph_currency ph'" by blast
    then show "(\<exists>df cur. srcs s q c = Inr (df, cur) \<and> pp_currency pp3 = str_upper cur)
      \<and> str_upper (pp_currency pp3) = pp_currency pp3
      \<and> (\<forall>ch \<in> set (pp_currency pp3). \<not> is_ascii_lowercase ch)"
      by (rule history)
  qed
  moreover
  have "price_history_call srcs (run srcs acts init_world) ca = (Inr ph5, w5) \<longrightarrow>
      (\<exists>q' s' c' df cur. bind_price_args ca = Inr (q', s', c')
          \<and> srcs s' q' c' = Inr (df, cur) \<and> ph_currency ph5 = str_upper cur)
      \<and> str_upper (ph_currency ph5) = ph_currency ph5
      \<and> (\<forall>ch \<in> set (ph_currency ph5). \<not> is_ascii_lowercase ch)"
  proof
    assume "price_history_call srcs (run srcs acts init_world) ca = (Inr ph5, w5)"
    from price_history_call_currency [OF inv this]
    obtain q' s' c' df cur where b: "bind_price_args ca = Inr (q', s', c')"
      and src: "srcs s' q' c' = Inr (df, cur)" and x: "ph_currency ph5 = str_upper cur"
      by blast
    from b src x upper_case_currency [OF x]
    show "(\<exists>q' s' c' df cur. bind_price_args ca = Inr (q', s', c')
          \<and> srcs s' q' c' = Inr (df, cur) \<and> ph_currency ph5 = str_upper cur)
      \<and> str_upper (ph_currency ph5) = ph_currency ph5
      \<and> (\<forall>ch \<in> set (ph_currency ph5). \<not> is_ascii_lowercase ch)"
      by blast
  qed
  ultimately show ?thesis by (intro conjI)
qed

lemma example_latest:
  "price_latest example_sources example_world ''AAPL'' ''yahoo'' ''USD''
     = (Inr \<lparr>pp_when = days 18267, pp_price = 74.95, pp_currency = ''USD''\<rparr>, example_world)"
proof -
  have "price_history example_sources example_world ''AAPL'' ''yahoo'' ''USD''
     = (Inr \<lparr>ph_df = 0, ph_currency = ''USD''\<rparr>, example_world)"
    by (simp add: price_history_def price_history_call_def example_world_def)
  then show ?thesis
    unfolding price_latest_def by (simp add: iloc_def example_world_def example_prices_def)
qed

theorem price_currency_upper_case_witness:
  "price_latest example_sources
      (run example_sources [CallPriceHistory ''AAPL'' ''yahoo'' ''USD''] init_world)
      ''AAPL'' ''yahoo'' ''USD''
     = (Inr \<lparr>pp_when = days 18267, pp_price = 74.95, pp_currency = ''USD''\<rparr>, example_world)
   \<and> example_sources ''yahoo'' ''AAPL'' ''USD'' = Inr (example_prices, ''usd'')
   \<and> str_upper ''USD'' = ''USD''
   \<and> \<not> is_ascii_lowercase CHR ''U''"
proof -
  have latest: "price_latest example_sources
      (run example_sources [CallPriceHistory ''AAPL'' ''yahoo'' ''USD''] init_world)
      ''AAPL'' ''yahoo'' ''USD''
     = (Inr \<lparr>pp_when = days 18267, pp_price = 74.95, pp_currency = ''USD''\<rparr>, example_world)"
    unfolding example_run by (rule example_latest)
  note inst = price_currency_upper_case [where srcs = example_sources
      and acts = "[CallPriceHistory ''AAPL'' ''yahoo'' ''USD'']"
      and q = "''AAPL''" and s = "''yahoo''" and c = "''USD''"
      and ?pp3.0 = "\<lparr>pp_when = days 18267, pp_price = 74.95, pp_currency = ''USD''\<rparr>"
      and ?w4.0 = example_world,
      THEN conjunct2, THEN conjunct2, THEN conjunct2, THEN conjunct1, rule_format, OF latest]
  from inst have "str_upper ''USD'' = ''USD''" and "\<not> is_ascii_lowercase CHR ''U''"
    by simp_all
  with latest show ?thesis by (simp add: example_sources_def)
qed

subsection \<open>Price points\<close>


lemma loc_partial:
  assumes "index_resolution (map fst df) < ws_reso wh"
  shows "loc df wh = Inl KeyError \<or> loc df wh = Inl AttributeError"
  using assms by (simp add: loc_def)










lemma price_point_strict_loc:
  assumes "price_history srcs w q s c = (Inr ph, w1)"
  shows "price_point_strict srcs w q wh s c =
     (case loc (heap w1 ! ph_df ph) wh of
        Inl e \<Rightarrow> (Inl e, w1)
      | Inr row \<Rightarrow>
          (Inr \<lparr>pp_when = fst row, pp_price = snd row, pp_currency = ph_currency ph\<rparr>, w1))"
  using assms by (simp add: price_point_strict_def)

lemma days_eq_iff: "days a = days b \<longleftrightarrow> a = b"
  by (simp add: days_def)

lemma label_resolution_days: "label_resolution (days d) = 6"
  by (simp add: label_resolution_def days_def)


lemma label_resolution_hours:
  "label_resolution (days 18263 + 3600000000000) = 5"
  "label_resolution (days 18264 + 3600000000000) = 5"
  by (simp_all add: label_resolution_def days_def)

lemma duplicate_loc:
  "loc [(days 18263, a), (days 18264, b), (days 18264, c)] (date_str 18264)
     = Inl AttributeError"
proof -
  have "index_resolution (map fst [(days 18263, a), (days 18264, b), (days 18264, c)]) = 6"
    by (simp add: index_resolution_def label_resolution_days)
  then show ?thesis
    unfolding loc_def by (simp add: date_str_def days_eq_iff)
qed

lemma hourly_loc:
  "loc [(days 18263, a), (days 18263 + 3600000000000, b),
        (days 18264 + 3600000000000, c)] (date_str d) =
     (if days (d + 1) - 1 < days 18263 \<or> days 18264 + 3600000000000 < days d
      then Inl KeyError else Inl AttributeError)"
proof -
  have "index_resolution (map fst [(days 18263, a),
          (days 18263 + 3600000000000, b), (days 18264 + 3600000000000, c)]) = 5"
    by (simp add: index_resolution_def label_resolution_days label_resolution_hours)
  moreover have "sorted (map fst [(days 18263, a),
          (days 18263 + 3600000000000, b), (days 18264 + 3600000000000, c)])"
    by (simp add: days_def)
  ultimately show ?thesis
    unfolding loc_def by (simp add: date_str_def)
qed

lemma example_histories:
  "price_history duplicate_sources init_world ''AAPL'' ''yahoo'' ''USD''
     = (Inr \<lparr>ph_df = 0, ph_currency = ''USD''\<rparr>,
        \<lparr>heap = [[(days 18263, 75.09), (days 18264, 74.36), (days 18264, 74.40)]],
         cache = [(([''AAPL'', ''yahoo'', ''USD''], []), \<lparr>ph_df = 0, ph_currency = ''USD''\<rparr>)],
         queries = [(''AAPL'', ''yahoo'', ''USD'')]\<rparr>)"
  "price_history hourly_sources init_world ''bitcoin'' ''coingecko'' ''USD''
     = (Inr \<lparr>ph_df = 0, ph_currency = ''USD''\<rparr>,
        \<lparr>heap = [[(days 18263, 7200), (days 18263 + 3600000000000, 7210),
                  (days 18264 + 3600000000000, 7190)]],
         cache = [(([''bitcoin'', ''coingecko'', ''USD''], []),
                   \<lparr>ph_df = 0, ph_currency = ''USD''\<rparr>)],
         queries = [(''bitcoin'', ''coingecko'', ''USD'')]\<rparr>)"
  by (simp_all add: price_history_def price_history_call_def bind_three_positional
      price_history_wrapped_def init_world_def duplicate_sources_def hourly_sources_def
      str_upper_def upper_char_def)

text \<open>
  \<open>price_point_strict\<close> can raise an exception that is not a \<open>KeyError\<close>, although its
  docstring says that it will return the price at the exact point in time or raise a
  \<open>KeyError\<close>. At a label that occurs twice \<open>loc\<close> gives a dataframe and \<open>.name\<close>
  raises \<open>AttributeError\<close>. On a history with prices at times of day a date string
  selects the rows of that day, again a dataframe: so for the date 2020-01-02, whose
  midnight is a label, and for the date 2020-01-03, whose midnight is no label, the
  function raises \<open>AttributeError\<close>; a date after the last label is a \<open>KeyError\<close>. A
  string that is less precise than the index never gives a \<open>PricePoint\<close>.
\<close>

lemma price_point_strict_attribute_error:
  "fst (price_point_strict duplicate_sources init_world ''AAPL'' (date_str 18264)
          ''yahoo'' ''USD'') = Inl AttributeError"
  "fst (price_point_strict hourly_sources init_world ''bitcoin'' (date_str 18263)
          ''coingecko'' ''USD'') = Inl AttributeError"
  "fst (price_point_strict hourly_sources init_world ''bitcoin'' (date_str 18264)
          ''coingecko'' ''USD'') = Inl AttributeError"
  "fst (price_point_strict hourly_sources init_world ''bitcoin'' (date_str 18265)
          ''coingecko'' ''USD'') = Inl KeyError"
  "ws_first (date_str 18263) \<in> fst ` set [(days 18263, 7200 :: real),
       (days 18263 + 3600000000000, 7210), (days 18264 + 3600000000000, 7190)]"
  "ws_first (date_str 18264) \<notin> fst ` set [(days 18263, 7200 :: real),
       (days 18263 + 3600000000000, 7210), (days 18264 + 3600000000000, 7190)]"
proof -
  show "fst (price_point_strict duplicate_sources init_world ''AAPL'' (date_str 18264)
          ''yahoo'' ''USD'') = Inl AttributeError"
    using price_point_strict_loc [OF example_histories(1)] by (simp add: duplicate_loc)
  note hourly = price_point_strict_loc [OF example_histories(2)]
  from hourly
  show "fst (price_point_strict hourly_sources init_world ''bitcoin'' (date_str 18263)
          ''coingecko'' ''USD'') = Inl AttributeError"
    by (simp add: hourly_loc) (simp add: days_def)
  from hourly
  show "fst (price_point_strict hourly_sources init_world ''bitcoin'' (date_str 18264)
          ''coingecko'' ''USD'') = Inl AttributeError"
    by (simp add: hourly_loc) (simp add: days_def)
  from hourly
  show "fst (price_point_strict hourly_sources init_world ''bitcoin'' (date_str 18265)
          ''coingecko'' ''USD'') = Inl KeyError"
    by (simp add: hourly_loc) (simp add: days_def)
  show "ws_first (date_str 18263) \<in> fst ` set [(days 18263, 7200 :: real),
       (days 18263 + 3600000000000, 7210), (days 18264 + 3600000000000, 7190)]"
    by (simp add: date_str_def)
  show "ws_first (date_str 18264) \<notin> fst ` set [(days 18263, 7200 :: real),
       (days 18263 + 3600000000000, 7210), (days 18264 + 3600000000000, 7190)]"
    by (simp add: date_str_def days_def)
qed

lemma price_point_strict_partial:
  assumes "price_history srcs w q s c = (Inr ph, w1)"
    and "index_resolution (map fst (heap w1 ! ph_df ph)) < ws_reso wh"
  shows "fst (price_point_strict srcs w q wh s c) = Inl KeyError
       \<or> fst (price_point_strict srcs w q wh s c) = Inl AttributeError"
  using loc_partial [OF assms(2)] unfolding price_point_strict_loc [OF assms(1)] by auto








end
